theory Spec2Isabelle
  imports Complex_Main "HOL-Library.Char_ord" "HOL-Library.List_Lexorder"
    "HOL-Library.Product_Lexorder" "HOL-Library.AList"
begin

section \<open>Values and errors\<close>

text \<open>
  The scraper of \<^verbatim>\<open>scrape_engine.py\<close> handles the values that \<^verbatim>\<open>json.loads\<close>
  returns: \<^verbatim>\<open>None\<close>, booleans, integers, floats, strings, lists and dictionaries. A
  dictionary is an association list in insertion order. Floats are modelled by real
  numbers: rounding and overflow are left out, the special results of a division by zero
  are written out where the detector divides (\<open>fval\<close> below).
\<close>

datatype json =
    JNull
  | JBool bool
  | JInt int
  | JFloat real
  | JStr string
  | JArr "json list"
  | JObj "(string \<times> json) list"

datatype error =
    AttributeError
  | TypeError
  | ValueError
  | OverflowError
  | BindingError
  | OtherError string

text \<open>
  An exception is a value: a block that may raise returns \<open>error + 'a\<close>, and \<open>bnd\<close>
  runs the rest of the block when no exception was raised.
\<close>

definition bnd :: "error + 'a \<Rightarrow> ('a \<Rightarrow> error + 'b) \<Rightarrow> error + 'b" where
  "bnd m f = (case m of Inl e \<Rightarrow> Inl e | Inr x \<Rightarrow> f x)"

text \<open>\<^verbatim>\<open>v.get(key, default)\<close>: only a dictionary has the method.\<close>

fun dict_get :: "json \<Rightarrow> string \<Rightarrow> json \<Rightarrow> error + json" where
  "dict_get (JObj kvs) k d = Inr (case map_of kvs k of Some v \<Rightarrow> v | None \<Rightarrow> d)"
| "dict_get v k d = Inl AttributeError"

text \<open>
  \<^verbatim>\<open>xs[:n]\<close>: a negative bound counts from the end.
\<close>

definition slice_to :: "int \<Rightarrow> 'a list \<Rightarrow> 'a list" where
  "slice_to n xs = (if 0 \<le> n then take (nat n) xs else take (length xs - nat (- n)) xs)"

text \<open>
  \<^verbatim>\<open>for item in v\<close>: a list yields its elements, a string its characters, a dictionary
  its keys; nothing else can be iterated.
\<close>

fun py_iter :: "json \<Rightarrow> error + json list" where
  "py_iter (JArr xs) = Inr xs"
| "py_iter (JStr s) = Inr (map (\<lambda>c. JStr [c]) s)"
| "py_iter (JObj kvs) = Inr (map (\<lambda>kv. JStr (fst kv)) kvs)"
| "py_iter v = Inl TypeError"

text \<open>\<^verbatim>\<open>for item in v[:n]\<close>: lists and strings can be sliced.\<close>

fun py_slice_iter :: "int \<Rightarrow> json \<Rightarrow> error + json list" where
  "py_slice_iter n (JArr xs) = Inr (slice_to n xs)"
| "py_slice_iter n (JStr s) = Inr (map (\<lambda>c. JStr [c]) (slice_to n s))"
| "py_slice_iter n v = Inl TypeError"

text \<open>\<^verbatim>\<open>v / 100000.0\<close>: defined on numbers (a boolean counts as 0 or 1).\<close>

fun py_truediv :: "json \<Rightarrow> real \<Rightarrow> error + real" where
  "py_truediv (JInt n) d = Inr (real_of_int n / d)"
| "py_truediv (JFloat r) d = Inr (r / d)"
| "py_truediv (JBool b) d = Inr ((if b then 1 else 0) / d)"
| "py_truediv v d = Inl TypeError"

text \<open>
  \<^verbatim>\<open>float(v)\<close>. The conversion of a string is the interpreter's own and is a parameter
  of the model: \<open>to_float s\<close> is \<open>None\<close> where \<^verbatim>\<open>float(s)\<close> raises \<^verbatim>\<open>ValueError\<close>.
\<close>

fun py_float :: "(string \<Rightarrow> real option) \<Rightarrow> json \<Rightarrow> error + real" where
  "py_float to_float (JInt n) = Inr (real_of_int n)"
| "py_float to_float (JFloat r) = Inr r"
| "py_float to_float (JBool b) = Inr (if b then 1 else 0)"
| "py_float to_float (JStr s) =
     (case to_float s of None \<Rightarrow> Inl ValueError | Some r \<Rightarrow> Inr r)"
| "py_float to_float v = Inl TypeError"

text \<open>\<^verbatim>\<open>s.replace(old, new)\<close> for a non-empty \<open>old\<close>, on the bytes of the string.\<close>

function replace :: "string \<Rightarrow> string \<Rightarrow> string \<Rightarrow> string" where
  "replace old new [] = []"
| "replace old new (c # cs) =
     (if old \<noteq> [] \<and> take (length old) (c # cs) = old
      then new @ replace old new (drop (length old) (c # cs))
      else c # replace old new cs)"
  by pat_completeness auto
termination
  by (relation "measure (\<lambda>(old, new, s). length s)") auto

section \<open>The record model\<close>

text \<open>
  \<^verbatim>\<open>datetime\<close> as the fields of the class. \<^verbatim>\<open>datetime.utcnow()\<close> is naive, so there
  is no offset.
\<close>

record datetime =
  year :: nat
  month :: nat
  day :: nat
  hour :: nat
  minute :: nat
  second :: nat
  microsecond :: nat

text \<open>
  The dataclass \<^verbatim>\<open>Product\<close>. Python does not check the annotations: the fields hold
  whatever the adapter found in the payload, so they are \<open>json\<close> values. The marketplace
  is always a literal of the adapter.
\<close>

record Product =
  marketplace :: string
  name :: json
  price :: json
  currency :: json
  specs :: "(string \<times> json) list"
  sales :: json
  rating :: json
  timestamp :: datetime

section \<open>The source adapters\<close>

text \<open>
  The network and the parsers of the libraries are not modelled: an adapter takes what
  \<^verbatim>\<open>fetch_page\<close>, \<^verbatim>\<open>json.loads\<close> and \<^verbatim>\<open>BeautifulSoup\<close> gave it. Each \<^verbatim>\<open>Product\<close> reads
  the clock when it is built: \<open>clk i\<close> is the reading for the record built when the
  result list has \<open>i\<close> records.
\<close>

datatype payload =
    NoBody
  | BadJson
  | Body json

subsection \<open>Shopee\<close>

definition shopee_item :: "datetime \<Rightarrow> json \<Rightarrow> error + Product" where
  "shopee_item now item =
     bnd (dict_get item ''item_basic'' (JObj [])) (\<lambda>model.
     bnd (dict_get model ''name'' (JStr '''')) (\<lambda>name.
     bnd (dict_get model ''price'' (JInt 0)) (\<lambda>raw.
     bnd (py_truediv raw 100000) (\<lambda>price.
     bnd (dict_get model ''historical_sold'' JNull) (\<lambda>sales.
     bnd (dict_get model ''item_rating'' (JObj [])) (\<lambda>item_rating.
     bnd (dict_get item_rating ''rating_star'' JNull) (\<lambda>rating.
     bnd (dict_get model ''brand'' (JStr ''Unknown'')) (\<lambda>brand.
     bnd (dict_get model ''itemid'' (JStr '''')) (\<lambda>itemid.
     Inr \<lparr>marketplace = ''Shopee'', name = name, price = JFloat price,
          currency = JStr ''THB'', specs = [(''brand'', brand), (''model_id'', itemid)],
          sales = sales, rating = rating, timestamp = now\<rparr>)))))))))"

text \<open>The loop over the items of the API response: no exception is caught inside it.\<close>

fun shopee_items :: "(nat \<Rightarrow> datetime) \<Rightarrow> json list \<Rightarrow> Product list \<Rightarrow> error + Product list" where
  "shopee_items clk [] results = Inr results"
| "shopee_items clk (item # items) results =
     bnd (shopee_item (clk (length results)) item)
       (\<lambda>p. shopee_items clk items (results @ [p]))"

text \<open>
  A search result of the HTML page: the text of the name element and of the price
  element, \<open>None\<close> where \<^verbatim>\<open>item.find\<close> finds nothing.
\<close>

record shopee_card =
  name_text :: "string option"
  price_text :: "string option"

text \<open>The baht sign, in UTF-8.\<close>

definition baht :: string where
  "baht = [CHR 0xE0, CHR 0xB8, CHR 0xBF]"

definition shopee_card_product ::
  "datetime \<Rightarrow> (string \<Rightarrow> real option) \<Rightarrow> shopee_card \<Rightarrow> error + Product" where
  "shopee_card_product now to_float item =
     (case name_text item of None \<Rightarrow> Inl AttributeError | Some nm \<Rightarrow>
      (case price_text item of None \<Rightarrow> Inl AttributeError | Some pt \<Rightarrow>
        bnd (py_float to_float (JStr (replace baht [] (replace '','' [] pt)))) (\<lambda>price.
        Inr \<lparr>marketplace = ''Shopee'', name = JStr nm, price = JFloat price,
             currency = JStr ''THB'', specs = [(''unknown'', JStr ''unknown'')],
             sales = JNull, rating = JNull, timestamp = now\<rparr>)))"

fun shopee_cards ::
  "(nat \<Rightarrow> datetime) \<Rightarrow> (string \<Rightarrow> real option) \<Rightarrow> shopee_card list \<Rightarrow> Product list
     \<Rightarrow> error + Product list" where
  "shopee_cards clk to_float [] results = Inr results"
| "shopee_cards clk to_float (item # items) results =
     bnd (shopee_card_product (clk (length results)) to_float item)
       (\<lambda>p. shopee_cards clk to_float items (results @ [p]))"

text \<open>
  \<open>api\<close> is the answer of the search API, \<open>html\<close> the items selected from the search
  page, which is fetched only when the API gave no record (\<open>None\<close>: no page). Only
  \<^verbatim>\<open>json.JSONDecodeError\<close> is caught, so every other exception leaves the function.
\<close>

definition parse_shopee ::
  "(nat \<Rightarrow> datetime) \<Rightarrow> (string \<Rightarrow> real option) \<Rightarrow> payload \<Rightarrow> shopee_card list option \<Rightarrow> int
     \<Rightarrow> error + Product list" where
  "parse_shopee clk to_float api html max_results =
     bnd (case api of
            Body data \<Rightarrow>
              bnd (dict_get data ''items'' (JArr [])) (\<lambda>items.
              bnd (py_iter items) (\<lambda>xs. shopee_items clk xs []))
          | _ \<Rightarrow> Inr [])
       (\<lambda>results.
          if results = [] then
            (case html of
               None \<Rightarrow> Inr results
             | Some cards \<Rightarrow> shopee_cards clk to_float (slice_to max_results cards) results)
          else Inr results)"

subsection \<open>Lazada\<close>

datatype lazada_page =
    NoPage
  | NoScript
  | ScriptBad
  | ScriptJson json

definition lazada_item :: "datetime \<Rightarrow> json \<Rightarrow> error + Product" where
  "lazada_item now item =
     bnd (dict_get item ''name'' (JStr '''')) (\<lambda>name.
     bnd (dict_get item ''price'' (JObj [])) (\<lambda>price_obj.
     bnd (dict_get price_obj ''value'' (JFloat 0)) (\<lambda>price.
     bnd (dict_get price_obj ''currencyCode'' (JStr ''THB'')) (\<lambda>currency.
     bnd (dict_get item ''ratingScore'' JNull) (\<lambda>rating.
     bnd (dict_get item ''soldCount'' JNull) (\<lambda>sales.
     bnd (dict_get item ''brandName'' (JStr ''Unknown'')) (\<lambda>brand.
     bnd (dict_get item ''sku'' (JStr '''')) (\<lambda>sku.
     Inr \<lparr>marketplace = ''Lazada'', name = name, price = price, currency = currency,
          specs = [(''brand'', brand), (''sku'', sku)],
          sales = sales, rating = rating, timestamp = now\<rparr>))))))))"

text \<open>
  The loop is inside the \<^verbatim>\<open>try\<close>: an exception ends it, and the function returns the
  records appended so far.
\<close>

fun lazada_items :: "(nat \<Rightarrow> datetime) \<Rightarrow> json list \<Rightarrow> Product list \<Rightarrow> Product list" where
  "lazada_items clk [] results = results"
| "lazada_items clk (item # items) results =
     (case lazada_item (clk (length results)) item of
        Inl e \<Rightarrow> results
      | Inr p \<Rightarrow> lazada_items clk items (results @ [p]))"

definition lazada_products_data :: "json \<Rightarrow> error + json" where
  "lazada_products_data data =
     bnd (dict_get data ''props'' (JObj [])) (\<lambda>props.
     bnd (dict_get props ''pageProps'' (JObj [])) (\<lambda>page_props.
     bnd (dict_get page_props ''initialState'' (JObj [])) (\<lambda>initial_state.
     bnd (dict_get initial_state ''products'' (JObj [])) (\<lambda>products.
     dict_get products ''items'' (JArr [])))))"

definition parse_lazada :: "(nat \<Rightarrow> datetime) \<Rightarrow> lazada_page \<Rightarrow> int \<Rightarrow> Product list" where
  "parse_lazada clk page max_results =
     (case page of
        ScriptJson data \<Rightarrow>
          (case bnd (lazada_products_data data) (py_slice_iter max_results) of
             Inl e \<Rightarrow> []
           | Inr items \<Rightarrow> lazada_items clk items [])
      | _ \<Rightarrow> [])"

subsection \<open>JD Central\<close>

text \<open>
  One \<^verbatim>\<open>ld+json\<close> block that \<^verbatim>\<open>json.loads\<close> has read: \<open>Inr None\<close> when it does not
  describe a product, an error where the body of the \<^verbatim>\<open>try\<close> raises.
\<close>

definition jd_product ::
  "datetime \<Rightarrow> (string \<Rightarrow> real option) \<Rightarrow> json \<Rightarrow> error + Product option" where
  "jd_product now to_float data =
     (case data of
        JObj kvs \<Rightarrow>
          if map_of kvs ''@type'' = Some (JStr ''Product'') then
            bnd (dict_get data ''name'' (JStr '''')) (\<lambda>name.
            bnd (dict_get data ''offers'' (JObj [])) (\<lambda>offers.
            bnd (dict_get offers ''price'' (JFloat 0)) (\<lambda>raw.
            bnd (py_float to_float raw) (\<lambda>price.
            bnd (dict_get offers ''priceCurrency'' (JStr ''THB'')) (\<lambda>currency.
            bnd (dict_get data ''aggregateRating'' (JObj [])) (\<lambda>aggregate_rating.
            bnd (dict_get aggregate_rating ''ratingValue'' JNull) (\<lambda>rating.
            bnd (dict_get data ''brand'' (JObj [])) (\<lambda>brand_obj.
            bnd (dict_get brand_obj ''name'' (JStr ''Unknown'')) (\<lambda>brand.
            bnd (dict_get data ''sku'' (JStr '''')) (\<lambda>sku.
            Inr (Some \<lparr>marketplace = ''JD Central'', name = name, price = JFloat price,
                 currency = currency, specs = [(''brand'', brand), (''sku'', sku)],
                 sales = JNull, rating = rating, timestamp = now\<rparr>)))))))))))
          else Inr None
      | _ \<Rightarrow> Inr None)"

text \<open>
  The loop over the blocks (\<open>None\<close>: \<^verbatim>\<open>json.loads\<close> raised). The \<^verbatim>\<open>try\<close> is inside the
  loop, so an exception skips one block. The cap is tested after a record is appended.
\<close>

fun jd_scripts ::
  "(nat \<Rightarrow> datetime) \<Rightarrow> (string \<Rightarrow> real option) \<Rightarrow> int \<Rightarrow> json option list \<Rightarrow> Product list
     \<Rightarrow> Product list" where
  "jd_scripts clk to_float max_results [] results = results"
| "jd_scripts clk to_float max_results (script # scripts) results =
     (case script of
        None \<Rightarrow> jd_scripts clk to_float max_results scripts results
      | Some data \<Rightarrow>
          (case jd_product (clk (length results)) to_float data of
             Inl e \<Rightarrow> jd_scripts clk to_float max_results scripts results
           | Inr None \<Rightarrow> jd_scripts clk to_float max_results scripts results
           | Inr (Some p) \<Rightarrow>
               if max_results \<le> int (length (results @ [p])) then results @ [p]
               else jd_scripts clk to_float max_results scripts (results @ [p])))"

definition parse_jd_central ::
  "(nat \<Rightarrow> datetime) \<Rightarrow> (string \<Rightarrow> real option) \<Rightarrow> json option list option \<Rightarrow> int
     \<Rightarrow> Product list" where
  "parse_jd_central clk to_float page max_results =
     (case page of
        None \<Rightarrow> []
      | Some scripts \<Rightarrow> jd_scripts clk to_float max_results scripts [])"

section \<open>Prices in a payload\<close>

















text \<open>A clock for the worked examples.\<close>

definition utc_midnight :: "nat \<Rightarrow> datetime" where
  "utc_midnight i =
     \<lparr>year = 2025, month = 11, day = 4, hour = 0, minute = 0, second = 0, microsecond = i\<rparr>"

section \<open>Serialisation\<close>

definition digit_char :: "nat \<Rightarrow> char" where
  "digit_char d = ''0123456789abcdef'' ! d"

text \<open>The decimal digits of a natural number, as \<^verbatim>\<open>str\<close> prints them.\<close>

function decimal :: "nat \<Rightarrow> string" where
  "decimal n = (if n < 10 then [digit_char n] else decimal (n div 10) @ [digit_char (n mod 10)])"
  by pat_completeness auto
termination
  by (relation "measure (\<lambda>n. n)") auto

declare decimal.simps [simp del]

definition str_int :: "int \<Rightarrow> string" where
  "str_int i = (if i < 0 then CHR ''-'' # decimal (nat (- i)) else decimal (nat i))"

text \<open>The format \<^verbatim>\<open>%0wd\<close> of a natural number: zeros on the left up to the width.\<close>

definition zero_pad :: "nat \<Rightarrow> nat \<Rightarrow> string" where
  "zero_pad w n = replicate (w - length (decimal n)) CHR ''0'' @ decimal n"

text \<open>
  \<^verbatim>\<open>datetime.isoformat()\<close> of a naive datetime: the fraction is printed only when the
  microseconds are not zero.
\<close>

definition isoformat :: "datetime \<Rightarrow> string" where
  "isoformat d =
     zero_pad 4 (year d) @ ''-'' @ zero_pad 2 (month d) @ ''-'' @ zero_pad 2 (day d) @ ''T'' @
     zero_pad 2 (hour d) @ '':'' @ zero_pad 2 (minute d) @ '':'' @ zero_pad 2 (second d) @
     (if microsecond d = 0 then [] else ''.'' @ zero_pad 6 (microsecond d))"

text \<open>
  \<^verbatim>\<open>json.dumps(v, ensure_ascii=False)\<close>. In a string the quote, the backslash and the
  control characters are escaped, every other byte is copied. The text of a float is
  \<^verbatim>\<open>float.__repr__\<close>, a parameter of the model.
\<close>

definition escape_char :: "char \<Rightarrow> string" where
  "escape_char c =
     (if c = CHR 0x22 then [CHR 0x5C, CHR 0x22]
      else if c = CHR 0x5C then [CHR 0x5C, CHR 0x5C]
      else if c = CHR 0x0A then [CHR 0x5C, CHR ''n'']
      else if c = CHR 0x0D then [CHR 0x5C, CHR ''r'']
      else if c = CHR 0x09 then [CHR 0x5C, CHR ''t'']
      else if c = CHR 0x08 then [CHR 0x5C, CHR ''b'']
      else if c = CHR 0x0C then [CHR 0x5C, CHR ''f'']
      else if (of_char c :: nat) < 32
        then [CHR 0x5C, CHR ''u'', CHR ''0'', CHR ''0'',
              digit_char (of_char c div 16), digit_char (of_char c mod 16)]
      else [c])"

definition encode_basestring :: "string \<Rightarrow> string" where
  "encode_basestring s = CHR 0x22 # concat (map escape_char s) @ [CHR 0x22]"

fun join :: "string \<Rightarrow> string list \<Rightarrow> string" where
  "join sep [] = []"
| "join sep [x] = x"
| "join sep (x # y # ys) = x @ sep @ join sep (y # ys)"

fun json_dumps :: "(real \<Rightarrow> string) \<Rightarrow> json \<Rightarrow> string" where
  "json_dumps float_repr JNull = ''null''"
| "json_dumps float_repr (JBool b) = (if b then ''true'' else ''false'')"
| "json_dumps float_repr (JInt i) = str_int i"
| "json_dumps float_repr (JFloat r) = float_repr r"
| "json_dumps float_repr (JStr s) = encode_basestring s"
| "json_dumps float_repr (JArr xs) =
     ''['' @ join '', '' (map (json_dumps float_repr) xs) @ '']''"
| "json_dumps float_repr (JObj kvs) =
     ''{'' @ join '', ''
       (map (\<lambda>(k, v). encode_basestring k @ '': '' @ json_dumps float_repr v) kvs) @ ''}''"

section \<open>The persistence layer\<close>

text \<open>
  A row of the table \<^verbatim>\<open>products\<close> has the eight columns of \<^verbatim>\<open>create_tables\<close>:
  \<^verbatim>\<open>timestamp TEXT, marketplace TEXT, name TEXT, price REAL, currency TEXT, specs TEXT,
  sales INTEGER, rating REAL\<close>. \<^verbatim>\<open>as_tuple\<close> gives the eight values that are bound to
  the \<^verbatim>\<open>INSERT\<close>. The store is the list of the committed rows of the table; a store
  without the table is the empty list, so \<^verbatim>\<open>CREATE TABLE IF NOT EXISTS\<close> changes
  nothing. Input and output errors of the database file are not modelled.
\<close>

record db_row =
  col_timestamp :: string
  col_marketplace :: string
  col_name :: json
  col_price :: json
  col_currency :: json
  col_specs :: string
  col_sales :: json
  col_rating :: json

definition as_tuple :: "(real \<Rightarrow> string) \<Rightarrow> Product \<Rightarrow> db_row" where
  "as_tuple float_repr p =
     \<lparr>col_timestamp = isoformat (timestamp p),
      col_marketplace = marketplace p,
      col_name = name p,
      col_price = price p,
      col_currency = currency p,
      col_specs = json_dumps float_repr (JObj (specs p)),
      col_sales = sales p,
      col_rating = rating p\<rparr>"

definition create_tables :: "db_row list \<Rightarrow> db_row list" where
  "create_tables db = db"

text \<open>
  The module \<^verbatim>\<open>sqlite3\<close> binds \<^verbatim>\<open>None\<close>, integers (a boolean is an integer), floats and
  strings. A list or a dictionary cannot be bound (\<^verbatim>\<open>sqlite3.InterfaceError\<close>, in later
  versions \<^verbatim>\<open>sqlite3.ProgrammingError\<close>), and an integer outside 64 bits raises
  \<^verbatim>\<open>OverflowError\<close>.
\<close>

fun bind_error :: "json \<Rightarrow> error option" where
  "bind_error (JArr xs) = Some BindingError"
| "bind_error (JObj kvs) = Some BindingError"
| "bind_error (JInt i) = (if - (2 ^ 63) \<le> i \<and> i < 2 ^ 63 then None else Some OverflowError)"
| "bind_error v = None"

fun first_error :: "error option list \<Rightarrow> error option" where
  "first_error [] = None"
| "first_error (Some e # es) = Some e"
| "first_error (None # es) = first_error es"

text \<open>The parameters of a row are bound in their order; three of them are always strings.\<close>

definition row_bind_error :: "db_row \<Rightarrow> error option" where
  "row_bind_error r =
     first_error [bind_error (col_name r), bind_error (col_price r), bind_error (col_currency r),
                  bind_error (col_sales r), bind_error (col_rating r)]"

text \<open>
  SQLite converts a value to the affinity of its column when it stores it. Two
  conversions are SQLite's own and are parameters of the model: the text it gives a
  real number that goes into a \<^verbatim>\<open>TEXT\<close> column, and the number it reads from a text
  that is a well-formed integer or real literal (\<open>None\<close> for every other text).
\<close>

record sqlite =
  real_text :: "real \<Rightarrow> string"
  literal_value :: "string \<Rightarrow> real option"

datatype affinity = TextAffinity | RealAffinity | IntegerAffinity

text \<open>
  A number in a column of \<^verbatim>\<open>INTEGER\<close> affinity is stored as an integer when it is one
  that fits in 64 bits, and as a real otherwise.
\<close>

definition integer_or_real :: "real \<Rightarrow> json" where
  "integer_or_real r =
     (if r = of_int \<lfloor>r\<rfloor> \<and> - (2 ^ 63) \<le> r \<and> r < 2 ^ 63 then JInt \<lfloor>r\<rfloor> else JFloat r)"

text \<open>
  The value that a later \<^verbatim>\<open>SELECT\<close> gives for a bound value: \<^verbatim>\<open>NULL\<close> stays, a
  \<^verbatim>\<open>TEXT\<close> column turns a number into its text, a \<^verbatim>\<open>REAL\<close> column turns an integer
  into a float and a numeric text into a float, an \<^verbatim>\<open>INTEGER\<close> column turns a float
  without fraction and a numeric text into an integer where it can. A boolean is bound as
  the integer 0 or 1.
\<close>

fun stored :: "sqlite \<Rightarrow> affinity \<Rightarrow> json \<Rightarrow> json" where
  "stored sq a JNull = JNull"
| "stored sq TextAffinity (JStr s) = JStr s"
| "stored sq TextAffinity (JInt i) = JStr (str_int i)"
| "stored sq TextAffinity (JBool b) = JStr (if b then ''1'' else ''0'')"
| "stored sq TextAffinity (JFloat r) = JStr (real_text sq r)"
| "stored sq RealAffinity (JFloat r) = JFloat r"
| "stored sq RealAffinity (JInt i) = JFloat (of_int i)"
| "stored sq RealAffinity (JBool b) = JFloat (if b then 1 else 0)"
| "stored sq RealAffinity (JStr s) =
     (case literal_value sq s of None \<Rightarrow> JStr s | Some r \<Rightarrow> JFloat r)"
| "stored sq IntegerAffinity (JInt i) = JInt i"
| "stored sq IntegerAffinity (JBool b) = JInt (if b then 1 else 0)"
| "stored sq IntegerAffinity (JFloat r) = integer_or_real r"
| "stored sq IntegerAffinity (JStr s) =
     (case literal_value sq s of None \<Rightarrow> JStr s | Some r \<Rightarrow> integer_or_real r)"
| "stored sq a v = v"

definition insert_row :: "sqlite \<Rightarrow> db_row \<Rightarrow> db_row" where
  "insert_row sq r =
     r\<lparr>col_name := stored sq TextAffinity (col_name r),
       col_price := stored sq RealAffinity (col_price r),
       col_currency := stored sq TextAffinity (col_currency r),
       col_sales := stored sq IntegerAffinity (col_sales r),
       col_rating := stored sq RealAffinity (col_rating r)\<rparr>"

text \<open>
  \<^verbatim>\<open>cur.executemany\<close> inserts the rows one after the other inside a transaction and
  raises at the first row that cannot be bound: \<open>pending\<close> are the rows inserted so far.
\<close>

fun executemany :: "sqlite \<Rightarrow> db_row list \<Rightarrow> db_row list \<Rightarrow> error + db_row list" where
  "executemany sq pending [] = Inr pending"
| "executemany sq pending (r # rs) =
     (case row_bind_error r of
        Some exc \<Rightarrow> Inl exc
      | None \<Rightarrow> executemany sq (pending @ [insert_row sq r]) rs)"

text \<open>
  \<^verbatim>\<open>save_to_db\<close> returns the store and the exception that leaves it, if any. When
  \<^verbatim>\<open>executemany\<close> raises, \<^verbatim>\<open>conn.commit()\<close> is not reached and the rows of the batch
  that were inserted are rolled back with the connection.
\<close>

definition save_to_db ::
  "sqlite \<Rightarrow> (real \<Rightarrow> string) \<Rightarrow> Product list \<Rightarrow> db_row list \<Rightarrow> db_row list \<times> error option" where
  "save_to_db sq float_repr products db =
     (if products = [] then (db, None)
      else
        (case executemany sq [] (map (as_tuple float_repr) products) of
           Inl exc \<Rightarrow> (db, Some exc)
         | Inr pending \<Rightarrow> (db @ pending, None)))"

text \<open>A record whose values can all be bound.\<close>

definition bindable :: "(real \<Rightarrow> string) \<Rightarrow> Product \<Rightarrow> bool" where
  "bindable float_repr p = (row_bind_error (as_tuple float_repr p) = None)"

text \<open>
  The export file is the list of the rows that the \<^verbatim>\<open>csv\<close> writer wrote, each row the
  list of its cells before they are printed. Every row ends with a line terminator, so
  the file has length zero (\<^verbatim>\<open>f.tell() == 0\<close> in append mode) exactly when it has no
  row.
\<close>

definition fieldnames :: "string list" where
  "fieldnames = [''timestamp'', ''marketplace'', ''name'', ''price'', ''currency'', ''specs'',
     ''sales'', ''rating'']"

text \<open>
  The dictionary \<^verbatim>\<open>asdict(p)\<close> with the timestamp and the specs replaced by their
  texts, read in the order of \<open>fieldnames\<close>.
\<close>

definition csv_row :: "(real \<Rightarrow> string) \<Rightarrow> Product \<Rightarrow> json list" where
  "csv_row float_repr p =
     [JStr (isoformat (timestamp p)), JStr (marketplace p), name p, price p, currency p,
      JStr (json_dumps float_repr (JObj (specs p))), sales p, rating p]"

definition writeheader :: "json list list \<Rightarrow> json list list" where
  "writeheader f = f @ [map JStr fieldnames]"

definition save_to_csv ::
  "(real \<Rightarrow> string) \<Rightarrow> Product list \<Rightarrow> json list list \<Rightarrow> json list list" where
  "save_to_csv float_repr products f =
     foldl (\<lambda>f p. f @ [csv_row float_repr p]) (if f = [] then writeheader f else f) products"

section \<open>Reading a row back\<close>

text \<open>
  The value of a decimal and of a hexadecimal digit, and of a text of digits.
\<close>

definition digit_val :: "char \<Rightarrow> nat option" where
  "digit_val c =
     (if CHR ''0'' \<le> c \<and> c \<le> CHR ''9'' then Some (of_char c - 48) else None)"

definition hex_val :: "char \<Rightarrow> nat option" where
  "hex_val c =
     (if CHR ''0'' \<le> c \<and> c \<le> CHR ''9'' then Some (of_char c - 48)
      else if CHR ''a'' \<le> c \<and> c \<le> CHR ''f'' then Some (of_char c - 87)
      else if CHR ''A'' \<le> c \<and> c \<le> CHR ''F'' then Some (of_char c - 55)
      else None)"

fun number_of :: "(char \<Rightarrow> nat option) \<Rightarrow> nat \<Rightarrow> nat \<Rightarrow> string \<Rightarrow> nat option" where
  "number_of val base acc [] = Some acc"
| "number_of val base acc (c # cs) =
     (case val c of None \<Rightarrow> None | Some d \<Rightarrow> number_of val base (base * acc + d) cs)"

definition hex4 :: "string \<Rightarrow> nat option" where
  "hex4 s = (if length s = 4 then number_of hex_val 16 0 s else None)"

text \<open>
  The bytes of a code point below \<open>0x10000\<close> in UTF-8; a surrogate alone has none.
\<close>

definition utf8 :: "nat \<Rightarrow> string option" where
  "utf8 n =
     (if n < 0x80 then Some [char_of n]
      else if n < 0x800 then Some [char_of (0xC0 + n div 64), char_of (0x80 + n mod 64)]
      else if 0xD800 \<le> n \<and> n < 0xE000 then None
      else Some [char_of (0xE0 + n div 4096), char_of (0x80 + n div 64 mod 64),
                 char_of (0x80 + n mod 64)])"

text \<open>
  Modelled from the spec: the repository has no code that reads the \<^verbatim>\<open>specs\<close> text of a
  row back; this is \<^verbatim>\<open>json.loads\<close> on the text of a dictionary of strings. First the
  text of one string, after its opening quote: the decoded string and the rest of the
  input. A control character that is not escaped is refused.
\<close>

definition unescape :: "char \<Rightarrow> char option" where
  "unescape e =
     (if e = CHR 0x22 then Some (CHR 0x22)
      else if e = CHR 0x5C then Some (CHR 0x5C)
      else if e = CHR ''/'' then Some (CHR ''/'')
      else if e = CHR ''b'' then Some (CHR 0x08)
      else if e = CHR ''f'' then Some (CHR 0x0C)
      else if e = CHR ''n'' then Some (CHR 0x0A)
      else if e = CHR ''r'' then Some (CHR 0x0D)
      else if e = CHR ''t'' then Some (CHR 0x09)
      else None)"

function scanstring :: "string \<Rightarrow> (string \<times> string) option" where
  "scanstring [] = None"
| "scanstring (c # cs) =
     (if c = CHR 0x22 then Some ([], cs)
      else if c = CHR 0x5C then
        (case cs of
           [] \<Rightarrow> None
         | e # es \<Rightarrow>
             if e = CHR ''u'' then
               (case hex4 (take 4 es) of
                  None \<Rightarrow> None
                | Some n \<Rightarrow>
                    (case utf8 n of
                       None \<Rightarrow> None
                     | Some u \<Rightarrow>
                         (case scanstring (drop 4 es) of
                            None \<Rightarrow> None
                          | Some (t, r) \<Rightarrow> Some (u @ t, r))))
             else
               (case unescape e of
                  None \<Rightarrow> None
                | Some ch \<Rightarrow>
                    (case scanstring es of
                       None \<Rightarrow> None
                     | Some (t, r) \<Rightarrow> Some (ch # t, r))))
      else if (of_char c :: nat) < 32 then None
      else (case scanstring cs of None \<Rightarrow> None | Some (t, r) \<Rightarrow> Some (c # t, r)))"
  by pat_completeness auto
termination
  by (relation "measure length") auto

text \<open>
  The white space between the tokens of a JSON text.
\<close>

definition is_ws :: "char \<Rightarrow> bool" where
  "is_ws c = (c = CHR '' '' \<or> c = CHR 0x09 \<or> c = CHR 0x0A \<or> c = CHR 0x0D)"

definition skip_ws :: "string \<Rightarrow> string" where
  "skip_ws s = dropWhile is_ws s"

lemma scanstring_shorter: "scanstring s = Some (t, r) \<Longrightarrow> length r < length s"
proof (induction s arbitrary: t r rule: scanstring.induct)
  case 1
  then show ?case by simp
next
  case (2 c cs)
  show ?case
  proof (cases "c = CHR 0x22")
    case True
    then show ?thesis using "2.prems" by simp
  next
    case nq: False
    show ?thesis
    proof (cases "c = CHR 0x5C")
      case True
      then obtain e es where cs: "cs = e # es"
        using "2.prems" nq by (cases cs) auto
      show ?thesis
      proof (cases "e = CHR ''u''")
        case u: True
        then obtain n u' t' where h: "hex4 (take 4 es) = Some n" "utf8 n = Some u'"
          "scanstring (drop 4 es) = Some (t', r)"
          using "2.prems" nq True cs by (auto split: option.splits)
        then have "length r < length (drop 4 es)"
          using "2.IH"(1) [OF nq True cs u h(1) h(2)] by blast
        then show ?thesis using cs by simp
      next
        case nu: False
        then obtain ch t' where h: "unescape e = Some ch" "scanstring es = Some (t', r)"
          using "2.prems" nq True cs by (auto split: option.splits)
        then have "length r < length es"
          using "2.IH"(2) [OF nq True cs nu h(1)] by blast
        then show ?thesis using cs by simp
      qed
    next
      case nb: False
      then obtain t' where c32: "\<not> (of_char c :: nat) < 32" and "scanstring cs = Some (t', r)"
        using "2.prems" nq by (auto split: option.splits if_splits)
      then have "length r < length cs"
        using "2.IH"(3) [OF nq nb c32] by blast
      then show ?thesis by simp
    qed
  qed
qed

lemma length_skip_ws: "length (skip_ws s) \<le> length s"
  by (simp add: skip_ws_def length_dropWhile_le)

lemma skip_ws_Cons_shorter: "skip_ws s = c # r \<Longrightarrow> length r < length s"
  using length_skip_ws [of s] by simp

text \<open>
  Modelled from the spec: the members \<^verbatim>\<open>"key": "value"\<close> of a JSON object up to the
  closing brace, for \<^verbatim>\<open>json.loads\<close> on a dictionary of strings. The input starts at
  the quote of the first key.
\<close>

function members :: "string \<Rightarrow> (string \<times> string) list option" where
  "members s =
     (case s of
        [] \<Rightarrow> None
      | q # s1 \<Rightarrow>
          if q \<noteq> CHR 0x22 then None
          else
            (case scanstring s1 of
               None \<Rightarrow> None
             | Some (k, r1) \<Rightarrow>
                 (case skip_ws r1 of
                    [] \<Rightarrow> None
                  | c # r2 \<Rightarrow>
                      if c \<noteq> CHR '':'' then None
                      else
                        (case skip_ws r2 of
                           [] \<Rightarrow> None
                         | q2 # r3 \<Rightarrow>
                             if q2 \<noteq> CHR 0x22 then None
                             else
                               (case scanstring r3 of
                                  None \<Rightarrow> None
                                | Some (v, r4) \<Rightarrow>
                                    (case skip_ws r4 of
                                       [] \<Rightarrow> None
                                     | d # r5 \<Rightarrow>
                                         if d = CHR '','' then
                                           (case members (skip_ws r5) of
                                              None \<Rightarrow> None
                                            | Some kvs \<Rightarrow> Some ((k, v) # kvs))
                                         else if d = CHR ''}'' then
                                           (if skip_ws r5 = [] then Some [(k, v)] else None)
                                         else None))))))"
  by pat_completeness auto

termination
proof (relation "measure length", goal_cases)
  case 1
  then show ?case by simp
next
  case (2 s q s1 x2 k r1 c r2 q2 r3 x2a v r4 d r5)
  have a: "length r1 < length s1" using 2 scanstring_shorter by metis
  have b: "length r2 < length r1" using 2 skip_ws_Cons_shorter by metis
  have c: "length r3 < length r2" using 2 skip_ws_Cons_shorter by metis
  have d: "length r4 < length r3" using 2 scanstring_shorter by metis
  have e: "length r5 < length r4" using 2 skip_ws_Cons_shorter by metis
  have f: "length (skip_ws r5) \<le> length r5" by (rule length_skip_ws)
  show ?case using a b c d e f 2 by simp
qed

declare members.simps [simp del]

text \<open>
  The dictionary built from the pairs in their order: a repeated key keeps its place and
  takes the last value.
\<close>

definition dict_of :: "(string \<times> string) list \<Rightarrow> (string \<times> string) list" where
  "dict_of kvs = foldl (\<lambda>d kv. AList.update (fst kv) (snd kv) d) [] kvs"

text \<open>
  Modelled from the spec: \<^verbatim>\<open>json.loads\<close> restricted to the texts of dictionaries whose
  values are strings; \<open>None\<close> on every other text.
\<close>

definition loads_str_dict :: "string \<Rightarrow> (string \<times> string) list option" where
  "loads_str_dict s =
     (case skip_ws s of
        [] \<Rightarrow> None
      | c # r \<Rightarrow>
          if c \<noteq> CHR ''{'' then None
          else
            (case skip_ws r of
               [] \<Rightarrow> None
             | d # r' \<Rightarrow>
                 if d = CHR ''}'' then (if skip_ws r' = [] then Some [] else None)
                 else map_option dict_of (members (d # r'))))"

text \<open>
  The text of one member of a dictionary of strings in \<^verbatim>\<open>json.dumps\<close>.
\<close>

definition dumps_pair :: "string \<times> string \<Rightarrow> string" where
  "dumps_pair kv = encode_basestring (fst kv) @ '': '' @ encode_basestring (snd kv)"

text \<open>
  Modelled from the spec: the repository has no code that reads the timestamp of a row
  back; this is \<^verbatim>\<open>datetime.fromisoformat\<close> on the two shapes that \<^verbatim>\<open>isoformat\<close>
  prints, with and without microseconds.
\<close>

definition decimal_value :: "string \<Rightarrow> nat option" where
  "decimal_value s = number_of digit_val 10 0 s"

definition fromisoformat :: "string \<Rightarrow> datetime option" where
  "fromisoformat s =
     (if (length s = 19 \<or> (length s = 26 \<and> s ! 19 = CHR ''.''))
         \<and> s ! 4 = CHR ''-'' \<and> s ! 7 = CHR ''-'' \<and> s ! 10 = CHR ''T''
         \<and> s ! 13 = CHR '':'' \<and> s ! 16 = CHR '':''
      then
        (case (decimal_value (take 4 s), decimal_value (take 2 (drop 5 s)),
               decimal_value (take 2 (drop 8 s)), decimal_value (take 2 (drop 11 s)),
               decimal_value (take 2 (drop 14 s)), decimal_value (take 2 (drop 17 s)),
               decimal_value (drop 20 s)) of
           (Some y, Some mo, Some d, Some h, Some mi, Some se, Some us) \<Rightarrow>
             Some \<lparr>year = y, month = mo, day = d, hour = h, minute = mi, second = se,
                   microsecond = us\<rparr>
         | _ \<Rightarrow> None)
      else None)"

text \<open>
  The ranges of the fields of a \<^verbatim>\<open>datetime\<close>.
\<close>

definition valid_datetime :: "datetime \<Rightarrow> bool" where
  "valid_datetime d =
     (1 \<le> year d \<and> year d \<le> 9999 \<and> 1 \<le> month d \<and> month d \<le> 12 \<and> 1 \<le> day d \<and> day d \<le> 31
      \<and> hour d < 24 \<and> minute d < 60 \<and> second d < 60 \<and> microsecond d < 1000000)"

text \<open>
  The types that the dataclass declares for the fields of a \<^verbatim>\<open>Product\<close>: strings for
  the name and the currency, a float for the price, a dictionary from strings to strings
  for the specs, an optional integer (in the range of an SQLite \<^verbatim>\<open>INTEGER\<close>) for the
  sales and an optional float for the rating.
\<close>

fun is_str :: "json \<Rightarrow> bool" where
  "is_str (JStr s) = True"
| "is_str v = False"

fun is_float :: "json \<Rightarrow> bool" where
  "is_float (JFloat r) = True"
| "is_float v = False"

fun is_optional_float :: "json \<Rightarrow> bool" where
  "is_optional_float JNull = True"
| "is_optional_float (JFloat r) = True"
| "is_optional_float v = False"

fun is_optional_int :: "json \<Rightarrow> bool" where
  "is_optional_int JNull = True"
| "is_optional_int (JInt i) = (- (2 ^ 63) \<le> i \<and> i < 2 ^ 63)"
| "is_optional_int v = False"

definition declared_types :: "Product \<Rightarrow> bool" where
  "declared_types p =
     (is_str (name p) \<and> is_float (price p) \<and> is_str (currency p)
      \<and> list_all (\<lambda>kv. is_str (snd kv)) (specs p) \<and> distinct (map fst (specs p))
      \<and> is_optional_int (sales p) \<and> is_optional_float (rating p)
      \<and> valid_datetime (timestamp p))"

text \<open>
  Modelled from the spec: the rows of the store with a given source, name and timestamp
  (the repository has no such query).
\<close>

definition select_rows :: "db_row list \<Rightarrow> string \<Rightarrow> json \<Rightarrow> datetime \<Rightarrow> db_row list" where
  "select_rows db source nm ts =
     filter (\<lambda>r. col_marketplace r = source \<and> col_name r = nm \<and> col_timestamp r = isoformat ts) db"

text \<open>
  Modelled from the spec: the record that a row of the store stands for, its timestamp
  and its specs read back from their texts (the repository has no such reader).
\<close>

definition read_back :: "db_row \<Rightarrow> Product option" where
  "read_back r =
     (case fromisoformat (col_timestamp r) of
        None \<Rightarrow> None
      | Some ts \<Rightarrow>
          (case loads_str_dict (col_specs r) of
             None \<Rightarrow> None
           | Some d \<Rightarrow>
               Some \<lparr>marketplace = col_marketplace r, name = col_name r, price = col_price r,
                     currency = col_currency r, specs = map (\<lambda>kv. (fst kv, JStr (snd kv))) d,
                     sales = col_sales r, rating = col_rating r, timestamp = ts\<rparr>))"

text \<open>
  The text of a string value.
\<close>

fun str_of :: "json \<Rightarrow> string" where
  "str_of (JStr s) = s"
| "str_of v = []"

section \<open>The orchestrator\<close>

text \<open>
  \<^verbatim>\<open>scrape_all\<close> calls the three adapters for each keyword. What an adapter call gives
  depends on the network at that moment, so an adapter is a function of the position of
  the keyword in the list, the keyword and the limit; \<open>Inl\<close> is an exception that left
  the adapter. The state of a run has the records gathered, the log, and the calls made
  so far in their order.
\<close>

type_synonym adapter = "nat \<Rightarrow> string \<Rightarrow> int \<Rightarrow> error + Product list"

datatype log_entry =
    Scraping string
  | ScraperFailed string string error
  | NoProducts

datatype call =
    AdapterCall string string
  | SaveToDb "Product list"
  | SaveToCsv "Product list"

record run_state =
  all_products :: "Product list"
  log_lines :: "log_entry list"
  calls :: "call list"

text \<open>One \<^verbatim>\<open>try\<close> block of the loop.\<close>

definition try_extend :: "string \<Rightarrow> (string \<Rightarrow> int \<Rightarrow> error + Product list) \<Rightarrow> string \<Rightarrow> int
    \<Rightarrow> run_state \<Rightarrow> run_state" where
  "try_extend site parse kw limit st =
     (case parse kw limit of
        Inr ps \<Rightarrow> st\<lparr>all_products := all_products st @ ps,
                      calls := calls st @ [AdapterCall site kw]\<rparr>
      | Inl exc \<Rightarrow> st\<lparr>log_lines := log_lines st @ [ScraperFailed site kw exc],
                       calls := calls st @ [AdapterCall site kw]\<rparr>)"

fun scrape_keywords ::
  "adapter \<Rightarrow> adapter \<Rightarrow> adapter \<Rightarrow> int \<Rightarrow> nat \<Rightarrow> string list \<Rightarrow> run_state \<Rightarrow> run_state" where
  "scrape_keywords shopee lazada jd limit i [] st = st"
| "scrape_keywords shopee lazada jd limit i (kw # kws) st =
     scrape_keywords shopee lazada jd limit (Suc i) kws
       (try_extend ''JD Central'' (jd i) kw limit
         (try_extend ''Lazada'' (lazada i) kw limit
           (try_extend ''Shopee'' (shopee i) kw limit
             (st\<lparr>log_lines := log_lines st @ [Scraping kw]\<rparr>))))"

text \<open>
  What a run leaves: the store, the export file, the log, the calls it made, and the
  exception that left \<^verbatim>\<open>scrape_all\<close>, if any. An exception of \<^verbatim>\<open>save_to_db\<close> is not
  caught, so \<^verbatim>\<open>save_to_csv\<close> is not called after it.
\<close>

record run_result =
  final_db :: "db_row list"
  final_csv :: "json list list"
  final_log :: "log_entry list"
  final_calls :: "call list"
  raised :: "error option"

definition scrape_all ::
  "sqlite \<Rightarrow> (real \<Rightarrow> string) \<Rightarrow> adapter \<Rightarrow> adapter \<Rightarrow> adapter \<Rightarrow> string list \<Rightarrow> db_row list
     \<Rightarrow> json list list \<Rightarrow> int \<Rightarrow> run_result" where
  "scrape_all sq float_repr shopee lazada jd keywords db csv limit =
     (let db0 = create_tables db;
          st = scrape_keywords shopee lazada jd limit 0 keywords
                 \<lparr>all_products = [], log_lines = [], calls = []\<rparr>
      in if all_products st \<noteq> [] then
           (case save_to_db sq float_repr (all_products st) db0 of
              (db1, Some exc) \<Rightarrow>
                \<lparr>final_db = db1, final_csv = csv, final_log = log_lines st,
                 final_calls = calls st @ [SaveToDb (all_products st)],
                 raised = Some exc\<rparr>
            | (db1, None) \<Rightarrow>
                \<lparr>final_db = db1,
                 final_csv = save_to_csv float_repr (all_products st) csv,
                 final_log = log_lines st,
                 final_calls = calls st @ [SaveToDb (all_products st), SaveToCsv (all_products st)],
                 raised = None\<rparr>)
         else
           \<lparr>final_db = db0, final_csv = csv, final_log = log_lines st @ [NoProducts],
            final_calls = calls st, raised = None\<rparr>)"

text \<open>
  The adapter calls of a run in the order they are made, each with its site, its keyword
  and what it gave; the records of the calls that returned, the log entries of the
  calls that raised, and the entry of a call in the list of calls.
\<close>

fun invocations ::
  "adapter \<Rightarrow> adapter \<Rightarrow> adapter \<Rightarrow> int \<Rightarrow> nat \<Rightarrow> string list
     \<Rightarrow> (string \<times> string \<times> (error + Product list)) list" where
  "invocations shopee lazada jd limit i [] = []"
| "invocations shopee lazada jd limit i (kw # kws) =
     [(''Shopee'', kw, shopee i kw limit), (''Lazada'', kw, lazada i kw limit),
      (''JD Central'', kw, jd i kw limit)]
     @ invocations shopee lazada jd limit (Suc i) kws"

fun produced :: "string \<times> string \<times> (error + Product list) \<Rightarrow> Product list" where
  "produced (site, kw, Inr ps) = ps"
| "produced (site, kw, Inl exc) = []"

fun failure :: "string \<times> string \<times> (error + Product list) \<Rightarrow> log_entry list" where
  "failure (site, kw, Inr ps) = []"
| "failure (site, kw, Inl exc) = [ScraperFailed site kw exc]"

fun is_failure :: "log_entry \<Rightarrow> bool" where
  "is_failure (ScraperFailed site kw exc) = True"
| "is_failure e = False"

fun adapter_call :: "string \<times> string \<times> (error + Product list) \<Rightarrow> call" where
  "adapter_call (site, kw, res) = AdapterCall site kw"

section \<open>The anomaly detector\<close>

text \<open>
  \<^verbatim>\<open>detect_price_anomalies\<close> reads the whole table into a data frame. A frame row keeps
  the columns the detector uses: the parsed timestamp (pandas holds it as a 64-bit count
  of nanoseconds), the two grouping keys and the price.
\<close>

record frow =
  f_timestamp :: int
  f_marketplace :: string
  f_name :: string
  f_price :: real

text \<open>
  The result of a float division in numpy: dividing by zero raises nothing, it gives
  \<open>NaN\<close> for \<open>0/0\<close> and an infinity of the sign of the numerator otherwise.
\<close>

datatype fval = Fin real | PInf | NInf | NaN

definition fdiv :: "real \<Rightarrow> real \<Rightarrow> fval" where
  "fdiv a b =
     (if b = 0 then (if a = 0 then NaN else if 0 < a then PInf else NInf)
      else Fin (a / b))"

text \<open>\<^verbatim>\<open>x >= threshold_pct\<close> for a finite threshold: every comparison with \<open>NaN\<close> is false.\<close>

fun fge :: "fval \<Rightarrow> real \<Rightarrow> bool" where
  "fge (Fin x) t = (t \<le> x)"
| "fge PInf t = True"
| "fge NInf t = False"
| "fge NaN t = False"

record anomaly =
  a_marketplace :: string
  a_name :: string
  current_price :: real
  rolling_mean :: real
  drop_pct :: fval

definition group_key :: "frow \<Rightarrow> string \<times> string" where
  "group_key r = (f_marketplace r, f_name r)"

text \<open>\<^verbatim>\<open>df.groupby(["marketplace", "name"])\<close> yields the groups in the order of their keys.\<close>

definition group_keys :: "frow list \<Rightarrow> (string \<times> string) list" where
  "group_keys df = sort (remdups (map group_key df))"

text \<open>
  \<^verbatim>\<open>group.sort_values("timestamp")\<close>. The model sorts stably; pandas leaves the order of
  rows with equal timestamps open.
\<close>

definition sorted_group :: "string \<times> string \<Rightarrow> frow list \<Rightarrow> frow list" where
  "sorted_group k df = sort_key f_timestamp (filter (\<lambda>r. group_key r = k) df)"

text \<open>
  \<^verbatim>\<open>rolling(window=window, min_periods=1).mean()\<close>: at row \<open>i\<close> the mean of the rows
  \<open>i - window + 1 .. i\<close> that exist.
\<close>

definition mean :: "real list \<Rightarrow> real" where
  "mean xs = sum_list xs / real (length xs)"

definition rolling_means :: "nat \<Rightarrow> real list \<Rightarrow> real list" where
  "rolling_means w ps =
     map (\<lambda>i. mean (drop (Suc i - w) (take (Suc i) ps))) [0..<length ps]"

definition drop_pcts :: "real list \<Rightarrow> real list \<Rightarrow> fval list" where
  "drop_pcts ms ps = map (\<lambda>(m, p). fdiv (m - p) m) (zip ms ps)"

text \<open>The body of the loop over the groups: the anomalies it appends, none or one.\<close>

definition check_group ::
  "nat \<Rightarrow> real \<Rightarrow> string \<times> string \<Rightarrow> frow list \<Rightarrow> anomaly list" where
  "check_group w threshold_pct k df =
     (let group = sorted_group k df;
          prices = map f_price group;
          means = rolling_means w prices;
          drops = drop_pcts means prices
      in if fge (last drops) threshold_pct
         then [\<lparr>a_marketplace = fst k, a_name = snd k, current_price = last prices,
                rolling_mean = last means, drop_pct = last drops\<rparr>]
         else [])"

text \<open>
  An empty frame returns before any group is looked at. Otherwise pandas refuses a
  window below \<open>min_periods = 1\<close> with a \<^verbatim>\<open>ValueError\<close>.
\<close>

definition detect_price_anomalies :: "frow list \<Rightarrow> int \<Rightarrow> real \<Rightarrow> error + anomaly list" where
  "detect_price_anomalies df window threshold_pct =
     (if df = [] then Inr []
      else if window < 1 then Inl ValueError
      else Inr (concat (map (\<lambda>k. check_group (nat window) threshold_pct k df)
                          (group_keys df))))"


text \<open>
  The frame of one series: the observations \<open>(timestamp, price)\<close> of one marketplace
  and one product name, in the order of the table.
\<close>

definition series :: "string \<Rightarrow> string \<Rightarrow> (int \<times> real) list \<Rightarrow> frow list" where
  "series m n obs =
     map (\<lambda>(ts, p). \<lparr>f_timestamp = ts, f_marketplace = m, f_name = n, f_price = p\<rparr>) obs"

section \<open>Properties of the detector\<close>

lemma last_rolling_means:
  assumes "ps \<noteq> []"
  shows "last (rolling_means w ps) = mean (drop (length ps - w) ps)"
proof -
  obtain n where n: "length ps = Suc n"
    using assms by (cases ps) auto
  have "last (rolling_means w ps) = mean (drop (Suc n - w) (take (Suc n) ps))"
    by (simp add: rolling_means_def n)
  then show ?thesis using n by simp
qed

lemma last_drop_pcts:
  assumes "ps \<noteq> []" "length ms = length ps"
  shows "last (drop_pcts ms ps) = fdiv (last ms - last ps) (last ms)"
proof -
  have ms: "ms \<noteq> []" using assms by auto
  have z: "zip ms ps \<noteq> []" using assms by (cases ms; cases ps) auto
  have "last (zip ms ps) = (last ms, last ps)"
    using ms assms by (intro last_zip) auto
  then show ?thesis using z by (simp add: drop_pcts_def last_map)
qed

lemma length_rolling_means [simp]: "length (rolling_means w ps) = length ps"
  by (simp add: rolling_means_def)





lemma series_group:
  assumes "obs \<noteq> []"
  shows "group_keys (series m n obs) = [(m, n)]"
proof -
  let ?ks = "map group_key (series m n obs)"
  have s: "set ?ks = {(m, n)}"
    using assms by (cases obs) (auto simp: series_def group_key_def split: prod.splits)
  have "length (remdups ?ks) = card (set ?ks)"
    by (rule length_remdups_card_conv)
  then have "length (remdups ?ks) = 1" using s by simp
  then obtain y where y: "remdups ?ks = [y]"
    by (cases "remdups ?ks") auto
  then have "set (remdups ?ks) = {y}" by simp
  then have "y = (m, n)" using s by simp
  then show ?thesis using y by (simp add: group_keys_def)
qed

lemma series_sorted_group:
  assumes "sorted (map fst obs)"
  shows "sorted_group (m, n) (series m n obs) = series m n obs"
proof -
  have f: "filter (\<lambda>r. group_key r = (m, n)) (series m n obs) = series m n obs"
    by (auto simp: series_def group_key_def filter_id_conv split: prod.splits)
  have "map f_timestamp (series m n obs) = map fst obs"
    by (auto simp: series_def split: prod.splits)
  then have "sorted (map f_timestamp (series m n obs))"
    using assms by simp
  then show ?thesis
    unfolding sorted_group_def f by (rule sort_key_id_if_sorted)
qed

lemma series_prices: "map f_price (series m n obs) = map snd obs"
  by (auto simp: series_def split: prod.splits)

lemma series_detect:
  assumes "obs \<noteq> []" "sorted (map fst obs)" "0 < w"
  shows "detect_price_anomalies (series m n obs) (int w) t =
     Inr (let means = rolling_means w (map snd obs);
              drops = drop_pcts means (map snd obs)
          in if fge (last drops) t
             then [\<lparr>a_marketplace = m, a_name = n, current_price = last (map snd obs),
                    rolling_mean = last means, drop_pct = last drops\<rparr>]
             else [])"
proof -
  have ne: "series m n obs \<noteq> []" using assms(1) by (simp add: series_def)
  show ?thesis
    using ne assms(3)
    by (simp add: detect_price_anomalies_def series_group [OF assms(1)] check_group_def
        series_sorted_group [OF assms(2)] series_prices Let_def)
qed



subsection \<open>Single observations\<close>




subsection \<open>The worked example\<close>

text \<open>
  C4. For the price history \<open>[1000, 1000, 1000, 1000, 600]\<close> of one series, a window of 5
  and a threshold of \<open>0.05\<close>, the detector emits exactly that series, with the rolling
  mean \<open>920\<close> and the drop fraction \<open>(920 - 600) / 920\<close>; for five prices of
  \<open>1000\<close> it emits nothing.
\<close>

theorem rolling_mean_example:
  assumes "t1 < t2" "t2 < t3" "t3 < t4" "t4 < t5"
  shows "detect_price_anomalies
           (series m n [(t1, 1000), (t2, 1000), (t3, 1000), (t4, 1000), (t5, 600)]) 5 (5 / 100) =
         Inr [\<lparr>a_marketplace = m, a_name = n, current_price = 600, rolling_mean = 920,
               drop_pct = Fin ((920 - 600) / 920)\<rparr>]
       \<and> detect_price_anomalies
           (series m n [(t1, 1000), (t2, 1000), (t3, 1000), (t4, 1000), (t5, 1000)]) 5 (5 / 100) =
         Inr []"
proof -
  have s: "sorted [t1, t2, t3, t4, t5]" using assms by simp
  have u: "[0..<5] = [0, 1, 2, 3, 4]" by (simp add: upt_rec)
  have a: "last (rolling_means 5 [1000, 1000, 1000, 1000, 600]) = 920"
    by (simp add: last_rolling_means mean_def)
  have b: "last (rolling_means 5 [1000, 1000, 1000, 1000, 1000]) = 1000"
    by (simp add: last_rolling_means mean_def)
  have c: "last (drop_pcts (rolling_means 5 [1000, 1000, 1000, 1000, 600])
                   [1000, 1000, 1000, 1000, 600]) = Fin ((920 - 600) / 920)"
    by (simp add: last_drop_pcts a fdiv_def)
  have d: "last (drop_pcts (rolling_means 5 [1000, 1000, 1000, 1000, 1000])
                   [1000, 1000, 1000, 1000, 1000]) = Fin 0"
    by (simp add: last_drop_pcts b fdiv_def)
  show ?thesis
    using series_detect [of "[(t1, 1000), (t2, 1000), (t3, 1000), (t4, 1000), (t5, 600)]" 5 m n "5 / 100"]
      series_detect [of "[(t1, 1000), (t2, 1000), (t3, 1000), (t4, 1000), (t5, 1000)]" 5 m n "5 / 100"]
      s
    by (simp add: a b c d Let_def)
qed

theorem rolling_mean_example_witness:
  "detect_price_anomalies
     (series ''Lazada'' ''Phone'' [(1, 1000), (2, 1000), (3, 1000), (4, 1000), (5, 600)]) 5 (5 / 100) =
   Inr [\<lparr>a_marketplace = ''Lazada'', a_name = ''Phone'', current_price = 600,
         rolling_mean = 920, drop_pct = Fin ((920 - 600) / 920)\<rparr>]
   \<and> detect_price_anomalies
     (series ''Lazada'' ''Phone'' [(1, 1000), (2, 1000), (3, 1000), (4, 1000), (5, 1000)]) 5 (5 / 100) =
   Inr []"
  using rolling_mean_example [of 1 2 3 4 5 "''Lazada''" "''Phone''"]
  by simp

subsection \<open>A rolling mean of zero\<close>




section \<open>Properties of the persistence layer\<close>

lemma foldl_snoc_map: "foldl (\<lambda>f p. f @ [g p]) f0 ps = f0 @ map g ps"
  by (induction ps arbitrary: f0) auto

lemma save_to_csv_eq:
  "save_to_csv float_repr ps f =
     (if f = [] then [map JStr fieldnames] else f) @ map (csv_row float_repr) ps"
  by (simp add: save_to_csv_def writeheader_def foldl_snoc_map)

text \<open>
  C7. Writing records to a file of length zero gives one header row and then one row for
  each record; writing again to that file adds the rows of the new records and no header.
\<close>

theorem export_header_policy:
  "save_to_csv float_repr ps [] = map JStr fieldnames # map (csv_row float_repr) ps
   \<and> save_to_csv float_repr qs (save_to_csv float_repr ps []) =
       map JStr fieldnames # map (csv_row float_repr) ps @ map (csv_row float_repr) qs"
  by (simp add: save_to_csv_eq)

lemma executemany_eq:
  "executemany sq pending rs =
     (case first_error (map row_bind_error rs) of
        None \<Rightarrow> Inr (pending @ map (insert_row sq) rs)
      | Some exc \<Rightarrow> Inl exc)"
proof (induction rs arbitrary: pending)
  case Nil
  then show ?case by simp
next
  case (Cons r rs)
  then show ?case
    by (cases "row_bind_error r") (simp_all split: option.splits)
qed

lemma first_error_None: "first_error es = None \<longleftrightarrow> list_all (\<lambda>e. e = None) es"
  by (induction es rule: first_error.induct) simp_all

lemma first_error_bindable:
  "first_error (map row_bind_error (map (as_tuple float_repr) ps)) = None
     \<longleftrightarrow> list_all (bindable float_repr) ps"
  by (simp add: first_error_None list_all_iff bindable_def)

lemma save_to_db_bindable:
  assumes "list_all (bindable float_repr) ps"
  shows "save_to_db sq float_repr ps db =
           (db @ map (\<lambda>p. insert_row sq (as_tuple float_repr p)) ps, None)"
proof -
  have "first_error (map row_bind_error (map (as_tuple float_repr) ps)) = None"
    using assms by (simp only: first_error_bindable)
  then have "executemany sq [] (map (as_tuple float_repr) ps) =
               Inr (map (insert_row sq) (map (as_tuple float_repr) ps))"
    by (simp add: executemany_eq)
  then show ?thesis
    by (simp add: save_to_db_def comp_def)
qed

lemma save_to_db_unbindable:
  assumes "\<not> list_all (bindable float_repr) ps"
  shows "\<exists>exc. save_to_db sq float_repr ps db = (db, Some exc)"
proof -
  have "first_error (map row_bind_error (map (as_tuple float_repr) ps)) \<noteq> None"
    using assms by (simp only: first_error_bindable) simp
  then obtain exc where "first_error (map row_bind_error (map (as_tuple float_repr) ps)) = Some exc"
    by auto
  then have "executemany sq [] (map (as_tuple float_repr) ps) = Inl exc"
    by (simp add: executemany_eq)
  moreover have "ps \<noteq> []" using assms by auto
  ultimately show ?thesis
    by (simp add: save_to_db_def)
qed

text \<open>
  C8, as the code has it. On the empty list \<^verbatim>\<open>save_to_db\<close> returns the store as it was.
  On a list whose values can all be bound it appends, in one batch, one row for each
  record: the values of \<^verbatim>\<open>as_tuple\<close> as SQLite stores them in their columns. When a
  value cannot be bound it raises and the store is as before, with no row of the batch.
  In every case the rows that were there keep their place and their content.
\<close>

theorem save_to_db_batch:
  "save_to_db sq float_repr [] db = (db, None)
   \<and> (list_all (bindable float_repr) ps \<longrightarrow>
        save_to_db sq float_repr ps db =
          (db @ map (\<lambda>p. insert_row sq (as_tuple float_repr p)) ps, None)
        \<and> length (fst (save_to_db sq float_repr ps db)) = length db + length ps)
   \<and> (\<not> list_all (bindable float_repr) ps \<longrightarrow>
        (\<exists>exc. save_to_db sq float_repr ps db = (db, Some exc)))
   \<and> take (length db) (fst (save_to_db sq float_repr ps db)) = db"
proof (intro conjI impI)
  show "save_to_db sq float_repr [] db = (db, None)"
    by (simp add: save_to_db_def)
next
  assume b: "list_all (bindable float_repr) ps"
  show "save_to_db sq float_repr ps db =
          (db @ map (\<lambda>p. insert_row sq (as_tuple float_repr p)) ps, None)"
    using b by (rule save_to_db_bindable)
  then show "length (fst (save_to_db sq float_repr ps db)) = length db + length ps"
    by simp
next
  assume "\<not> list_all (bindable float_repr) ps"
  then show "\<exists>exc. save_to_db sq float_repr ps db = (db, Some exc)"
    by (rule save_to_db_unbindable)
next
  show "take (length db) (fst (save_to_db sq float_repr ps db)) = db"
  proof (cases "list_all (bindable float_repr) ps")
    case True
    then show ?thesis by (simp add: save_to_db_bindable)
  next
    case False
    then obtain exc where "save_to_db sq float_repr ps db = (db, Some exc)"
      using save_to_db_unbindable by blast
    then show ?thesis by simp
  qed
qed

theorem save_to_db_batch_witness:
  "save_to_db \<lparr>real_text = (\<lambda>r. []), literal_value = (\<lambda>s. None)\<rparr> (\<lambda>r. [])
     [\<lparr>marketplace = ''Lazada'', name = JStr ''Phone'', price = JFloat 5990,
       currency = JStr ''THB'', specs = [], sales = JInt 12, rating = JNull,
       timestamp = utc_midnight 0\<rparr>] []
   = ([\<lparr>col_timestamp = ''2025-11-04T00:00:00'', col_marketplace = ''Lazada'',
        col_name = JStr ''Phone'', col_price = JFloat 5990, col_currency = JStr ''THB'',
        col_specs = ''{}'', col_sales = JInt 12, col_rating = JNull\<rparr>], None)"
proof -
  let ?p = "\<lparr>marketplace = ''Lazada'', name = JStr ''Phone'', price = JFloat 5990,
       currency = JStr ''THB'', specs = [], sales = JInt 12, rating = JNull,
       timestamp = utc_midnight 0\<rparr>"
  have b: "list_all (bindable (\<lambda>r. [])) [?p]"
    by (simp add: bindable_def row_bind_error_def as_tuple_def)
  have d: "decimal 2025 = ''2025''" "decimal 11 = ''11''" "decimal 4 = ''4''" "decimal 0 = ''0''"
    by (simp_all add: decimal.simps digit_char_def)
  show ?thesis
    using save_to_db_batch [where ps = "[?p]" and float_repr = "\<lambda>r. []" and db = "[]"
        and sq = "\<lparr>real_text = (\<lambda>r. []), literal_value = (\<lambda>s. None)\<rparr>"] b
    by (simp add: insert_row_def as_tuple_def isoformat_def zero_pad_def utc_midnight_def d)
qed

text \<open>
  C8 as stated fails: for a record whose sales count is beyond 64 bits
  \<^verbatim>\<open>save_to_db\<close> raises \<^verbatim>\<open>OverflowError\<close> and inserts no row.
\<close>

theorem save_to_db_inserts_nothing_on_overflow:
  "save_to_db \<lparr>real_text = (\<lambda>r. []), literal_value = (\<lambda>s. None)\<rparr> (\<lambda>r. [])
     [\<lparr>marketplace = ''Lazada'', name = JStr ''Phone'', price = JFloat 5990,
       currency = JStr ''THB'', specs = [], sales = JInt (2 ^ 63), rating = JNull,
       timestamp = utc_midnight 0\<rparr>] []
   = ([], Some OverflowError)"
  by (simp add: save_to_db_def row_bind_error_def as_tuple_def)

section \<open>Properties of the orchestrator\<close>

lemma try_extend_products:
  "all_products (try_extend site parse kw limit st) =
     all_products st @ produced (site, kw, parse kw limit)"
  by (cases "parse kw limit") (simp_all add: try_extend_def)

lemma try_extend_failures:
  "filter is_failure (log_lines (try_extend site parse kw limit st)) =
     filter is_failure (log_lines st) @ failure (site, kw, parse kw limit)"
  by (cases "parse kw limit") (simp_all add: try_extend_def)

lemma try_extend_calls:
  "calls (try_extend site parse kw limit st) =
     calls st @ [adapter_call (site, kw, parse kw limit)]"
  by (cases "parse kw limit") (simp_all add: try_extend_def)

lemma scrape_keywords_products:
  "all_products (scrape_keywords shopee lazada jd limit i kws st) =
     all_products st @ concat (map produced (invocations shopee lazada jd limit i kws))"
  by (induction kws arbitrary: i st) (simp_all add: try_extend_products)

lemma scrape_keywords_failures:
  "filter is_failure (log_lines (scrape_keywords shopee lazada jd limit i kws st)) =
     filter is_failure (log_lines st)
       @ concat (map failure (invocations shopee lazada jd limit i kws))"
  by (induction kws arbitrary: i st) (simp_all add: try_extend_failures)

lemma scrape_keywords_calls:
  "calls (scrape_keywords shopee lazada jd limit i kws st) =
     calls st @ map adapter_call (invocations shopee lazada jd limit i kws)"
  by (induction kws arbitrary: i st) (simp_all add: try_extend_calls)

text \<open>
  C6, as the code has it. Whatever the adapter calls of a run do, every call is made, in
  the order of the keywords and the sites; the failure entries of the log are those of
  the calls that raised, one for each and in the order of the calls. When the records
  of the calls that returned are not empty and can all be bound, they are persisted after
  the last adapter call, by one call of \<^verbatim>\<open>save_to_db\<close>, which appends one row for each
  record to the store, and then one call of \<^verbatim>\<open>save_to_csv\<close>, which writes the header
  if the file was empty and one row for each record. When a record cannot be bound,
  \<^verbatim>\<open>save_to_db\<close> raises: the store and the file are as before, \<^verbatim>\<open>save_to_csv\<close> is not
  called and the exception leaves \<^verbatim>\<open>scrape_all\<close>. With no record at all neither is
  called.
\<close>

theorem scrape_all_isolates_failures:
  assumes "invs = invocations shopee lazada jd limit 0 keywords"
    and "agg = concat (map produced invs)"
    and "res = scrape_all sq float_repr shopee lazada jd keywords db csv limit"
  shows "filter is_failure (final_log res) = concat (map failure invs)
    \<and> take (length invs) (final_calls res) = map adapter_call invs
    \<and> (agg \<noteq> [] \<and> list_all (bindable float_repr) agg \<longrightarrow>
         final_calls res = map adapter_call invs @ [SaveToDb agg, SaveToCsv agg]
         \<and> final_db res = db @ map (\<lambda>p. insert_row sq (as_tuple float_repr p)) agg
         \<and> final_csv res =
             (if csv = [] then [map JStr fieldnames] else csv) @ map (csv_row float_repr) agg
         \<and> raised res = None)
    \<and> (agg \<noteq> [] \<and> \<not> list_all (bindable float_repr) agg \<longrightarrow>
         final_calls res = map adapter_call invs @ [SaveToDb agg]
         \<and> final_db res = db \<and> final_csv res = csv \<and> (\<exists>exc. raised res = Some exc))
    \<and> (agg = [] \<longrightarrow>
         final_calls res = map adapter_call invs
         \<and> final_db res = db \<and> final_csv res = csv \<and> raised res = None)"
proof -
  define st where
    "st = scrape_keywords shopee lazada jd limit 0 keywords
            \<lparr>all_products = [], log_lines = [], calls = []\<rparr>"
  have a: "all_products st = agg"
    by (simp add: st_def assms(1,2) scrape_keywords_products)
  have l: "filter is_failure (log_lines st) = concat (map failure invs)"
    by (simp add: st_def assms(1) scrape_keywords_failures)
  have c: "calls st = map adapter_call invs"
    by (simp add: st_def assms(1) scrape_keywords_calls)
  have r: "res =
     (if agg \<noteq> [] then
        (case save_to_db sq float_repr agg db of
           (db1, Some exc) \<Rightarrow>
             \<lparr>final_db = db1, final_csv = csv, final_log = log_lines st,
              final_calls = calls st @ [SaveToDb agg], raised = Some exc\<rparr>
         | (db1, None) \<Rightarrow>
             \<lparr>final_db = db1, final_csv = save_to_csv float_repr agg csv,
              final_log = log_lines st,
              final_calls = calls st @ [SaveToDb agg, SaveToCsv agg], raised = None\<rparr>)
      else \<lparr>final_db = db, final_csv = csv, final_log = log_lines st @ [NoProducts],
             final_calls = calls st, raised = None\<rparr>)"
    unfolding assms(3) scrape_all_def Let_def create_tables_def st_def [symmetric] a
    by (rule refl)
  have csv: "save_to_csv float_repr agg csv =
               (if csv = [] then [map JStr fieldnames] else csv) @ map (csv_row float_repr) agg"
    by (rule save_to_csv_eq)
  show ?thesis
  proof (cases "agg = []")
    case True
    then show ?thesis using r l c by simp
  next
    case ne: False
    show ?thesis
    proof (cases "list_all (bindable float_repr) agg")
      case True
      have "save_to_db sq float_repr agg db =
              (db @ map (\<lambda>p. insert_row sq (as_tuple float_repr p)) agg, None)"
        using True by (rule save_to_db_bindable)
      then show ?thesis using r l c ne True csv by simp
    next
      case False
      then obtain exc where "save_to_db sq float_repr agg db = (db, Some exc)"
        using save_to_db_unbindable by blast
      then show ?thesis using r l c ne False by simp
    qed
  qed
qed

theorem scrape_all_isolates_failures_witness:
  "filter is_failure (final_log (scrape_all \<lparr>real_text = (\<lambda>r. []), literal_value = (\<lambda>s. None)\<rparr>
       (\<lambda>r. []) (\<lambda>i kw n. Inl ValueError)
       (\<lambda>i kw n. Inr [\<lparr>marketplace = ''Lazada'', name = JStr ''Phone'', price = JFloat 5990,
           currency = JStr ''THB'', specs = [], sales = JInt 12, rating = JNull,
           timestamp = utc_midnight 0\<rparr>])
       (\<lambda>i kw n. Inr []) [''phone''] [] [] 10))
     = [ScraperFailed ''Shopee'' ''phone'' ValueError]
   \<and> final_calls (scrape_all \<lparr>real_text = (\<lambda>r. []), literal_value = (\<lambda>s. None)\<rparr>
       (\<lambda>r. []) (\<lambda>i kw n. Inl ValueError)
       (\<lambda>i kw n. Inr [\<lparr>marketplace = ''Lazada'', name = JStr ''Phone'', price = JFloat 5990,
           currency = JStr ''THB'', specs = [], sales = JInt 12, rating = JNull,
           timestamp = utc_midnight 0\<rparr>])
       (\<lambda>i kw n. Inr []) [''phone''] [] [] 10)
     = [AdapterCall ''Shopee'' ''phone'', AdapterCall ''Lazada'' ''phone'',
        AdapterCall ''JD Central'' ''phone'',
        SaveToDb [\<lparr>marketplace = ''Lazada'', name = JStr ''Phone'', price = JFloat 5990,
           currency = JStr ''THB'', specs = [], sales = JInt 12, rating = JNull,
           timestamp = utc_midnight 0\<rparr>],
        SaveToCsv [\<lparr>marketplace = ''Lazada'', name = JStr ''Phone'', price = JFloat 5990,
           currency = JStr ''THB'', specs = [], sales = JInt 12, rating = JNull,
           timestamp = utc_midnight 0\<rparr>]]
   \<and> length (final_db (scrape_all \<lparr>real_text = (\<lambda>r. []), literal_value = (\<lambda>s. None)\<rparr>
       (\<lambda>r. []) (\<lambda>i kw n. Inl ValueError)
       (\<lambda>i kw n. Inr [\<lparr>marketplace = ''Lazada'', name = JStr ''Phone'', price = JFloat 5990,
           currency = JStr ''THB'', specs = [], sales = JInt 12, rating = JNull,
           timestamp = utc_midnight 0\<rparr>])
       (\<lambda>i kw n. Inr []) [''phone''] [] [] 10)) = 1
   \<and> length (final_csv (scrape_all \<lparr>real_text = (\<lambda>r. []), literal_value = (\<lambda>s. None)\<rparr>
       (\<lambda>r. []) (\<lambda>i kw n. Inl ValueError)
       (\<lambda>i kw n. Inr [\<lparr>marketplace = ''Lazada'', name = JStr ''Phone'', price = JFloat 5990,
           currency = JStr ''THB'', specs = [], sales = JInt 12, rating = JNull,
           timestamp = utc_midnight 0\<rparr>])
       (\<lambda>i kw n. Inr []) [''phone''] [] [] 10)) = 2"
proof -
  let ?p = "\<lparr>marketplace = ''Lazada'', name = JStr ''Phone'', price = JFloat 5990,
           currency = JStr ''THB'', specs = [], sales = JInt 12, rating = JNull,
           timestamp = utc_midnight 0\<rparr>"
  let ?sq = "\<lparr>real_text = (\<lambda>r. []), literal_value = (\<lambda>s. None)\<rparr>"
  let ?sh = "\<lambda>(i::nat) (kw::string) (n::int). (Inl ValueError :: error + Product list)"
  let ?la = "\<lambda>(i::nat) (kw::string) (n::int). (Inr [?p] :: error + Product list)"
  let ?jd = "\<lambda>(i::nat) (kw::string) (n::int). (Inr [] :: error + Product list)"
  let ?invs = "invocations ?sh ?la ?jd 10 0 [''phone'']"
  have agg: "concat (map produced ?invs) = [?p]" by simp
  have b: "list_all (bindable (\<lambda>r. [])) [?p]"
    by (simp add: bindable_def row_bind_error_def as_tuple_def)
  show ?thesis
    using scrape_all_isolates_failures [OF refl refl refl, where shopee = "?sh" and lazada = "?la"
        and jd = "?jd" and limit = 10 and ?keywords = "[''phone'']" and sq = "?sq"
        and float_repr = "\<lambda>r. []" and db = "[]" and csv = "[]"]
    unfolding agg using b by simp
qed

text \<open>
  C6 as stated fails: the Shopee call raises and is logged, the Lazada call returns a
  record whose name is a list (the payload had one), and the aggregate is persisted
  neither to the store nor to the file: \<^verbatim>\<open>save_to_db\<close> raises on the name.
\<close>

theorem unbindable_aggregate_is_not_persisted:
  "final_db (scrape_all \<lparr>real_text = (\<lambda>r. []), literal_value = (\<lambda>s. None)\<rparr>
       (\<lambda>r. []) (\<lambda>i kw n. Inl ValueError)
       (\<lambda>i kw n. Inr (parse_lazada utc_midnight
          (ScriptJson (JObj [(''props'', JObj [(''pageProps'', JObj [(''initialState'', JObj
             [(''products'', JObj [(''items'', JArr
                [JObj [(''name'', JArr [JStr ''Phone'']),
                       (''price'', JObj [(''value'', JInt 100)])]])])])])])])) n))
       (\<lambda>i kw n. Inr []) [''phone''] [] [] 10) = []
   \<and> final_csv (scrape_all \<lparr>real_text = (\<lambda>r. []), literal_value = (\<lambda>s. None)\<rparr>
       (\<lambda>r. []) (\<lambda>i kw n. Inl ValueError)
       (\<lambda>i kw n. Inr (parse_lazada utc_midnight
          (ScriptJson (JObj [(''props'', JObj [(''pageProps'', JObj [(''initialState'', JObj
             [(''products'', JObj [(''items'', JArr
                [JObj [(''name'', JArr [JStr ''Phone'']),
                       (''price'', JObj [(''value'', JInt 100)])]])])])])])])) n))
       (\<lambda>i kw n. Inr []) [''phone''] [] [] 10) = []
   \<and> raised (scrape_all \<lparr>real_text = (\<lambda>r. []), literal_value = (\<lambda>s. None)\<rparr>
       (\<lambda>r. []) (\<lambda>i kw n. Inl ValueError)
       (\<lambda>i kw n. Inr (parse_lazada utc_midnight
          (ScriptJson (JObj [(''props'', JObj [(''pageProps'', JObj [(''initialState'', JObj
             [(''products'', JObj [(''items'', JArr
                [JObj [(''name'', JArr [JStr ''Phone'']),
                       (''price'', JObj [(''value'', JInt 100)])]])])])])])])) n))
       (\<lambda>i kw n. Inr []) [''phone''] [] [] 10) = Some BindingError"
proof -
  let ?page = "ScriptJson (JObj [(''props'', JObj [(''pageProps'', JObj [(''initialState'', JObj
             [(''products'', JObj [(''items'', JArr
                [JObj [(''name'', JArr [JStr ''Phone'']),
                       (''price'', JObj [(''value'', JInt 100)])]])])])])])])"
  have p: "parse_lazada utc_midnight ?page 10 =
      [\<lparr>marketplace = ''Lazada'', name = JArr [JStr ''Phone''], price = JInt 100,
        currency = JStr ''THB'', specs = [(''brand'', JStr ''Unknown''), (''sku'', JStr '''')],
        sales = JNull, rating = JNull, timestamp = utc_midnight 0\<rparr>]"
    by (simp add: parse_lazada_def lazada_products_data_def lazada_item_def bnd_def slice_to_def)
  show ?thesis
    by (simp add: scrape_all_def Let_def create_tables_def try_extend_def p save_to_db_def
        row_bind_error_def as_tuple_def del: json_dumps.simps)
qed

section \<open>Properties of the adapters\<close>










lemma lazada_items_strings:
  "lazada_items clk (map (\<lambda>c. JStr [c]) s) [] = []"
  by (cases s) (simp_all add: lazada_item_def bnd_def)








lemma length_slice_to: "0 \<le> n \<Longrightarrow> length (slice_to n xs) \<le> nat n"
  by (simp add: slice_to_def)

lemma length_lazada_items:
  "length (lazada_items clk items results) \<le> length results + length items"
proof (induction items arbitrary: results)
  case Nil
  then show ?case by simp
next
  case (Cons item items)
  show ?case
  proof (cases "lazada_item (clk (length results)) item")
    case (Inl e)
    then show ?thesis by simp
  next
    case (Inr p)
    then show ?thesis using Cons.IH [of "results @ [p]"] by simp
  qed
qed

lemma parse_lazada_cap:
  assumes "0 \<le> n"
  shows "int (length (parse_lazada clk page n)) \<le> n"
proof -
  have items: "length (lazada_items clk (slice_to n xs) []) \<le> nat n" for xs
    using length_lazada_items [of clk "slice_to n xs" "[]"] length_slice_to [OF assms, of xs]
    by simp
  have strs: "length (lazada_items clk (map (\<lambda>c. JStr [c]) (slice_to n s)) []) \<le> nat n" for s
    by (simp add: lazada_items_strings)
  have "length (parse_lazada clk page n) \<le> nat n"
  proof (cases page)
    case (ScriptJson data)
    show ?thesis
    proof (cases "lazada_products_data data")
      case (Inl e)
      then show ?thesis using ScriptJson by (simp add: parse_lazada_def bnd_def)
    next
      case (Inr v)
      then show ?thesis
        using ScriptJson items strs
        by (cases v) (simp_all add: parse_lazada_def bnd_def)
    qed
  qed (simp_all add: parse_lazada_def)
  then show ?thesis using assms by linarith
qed

lemma length_jd_scripts:
  assumes "int (length results) < n"
  shows "int (length (jd_scripts clk to_float n scripts results)) \<le> n"
  using assms
proof (induction scripts arbitrary: results)
  case Nil
  then show ?case by simp
next
  case (Cons script scripts)
  show ?case
  proof (cases script)
    case None
    then show ?thesis using Cons by simp
  next
    case (Some data)
    show ?thesis
    proof (cases "jd_product (clk (length results)) to_float data")
      case (Inl e)
      then show ?thesis using Some Cons by simp
    next
      case (Inr r)
      show ?thesis
      proof (cases r)
        case None
        then show ?thesis using Inr Some Cons by simp
      next
        case (Some p)
        show ?thesis
        proof (cases "n \<le> int (length (results @ [p]))")
          case True
          then show ?thesis
            using Inr Some \<open>script = Some data\<close> Cons.prems by simp
        next
          case False
          then have "int (length (results @ [p])) < n" by simp
          from Cons.IH [OF this] show ?thesis
            using Inr Some \<open>script = Some data\<close> False by simp
        qed
      qed
    qed
  qed
qed

lemma parse_jd_central_cap:
  "1 \<le> n \<Longrightarrow> int (length (parse_jd_central clk to_float page n)) \<le> n"
  by (cases page) (simp_all add: parse_jd_central_def length_jd_scripts)

text \<open>
  C2. The loop over the API response of \<^verbatim>\<open>parse_shopee\<close> has no cap: a response of two
  items gives two records for \<open>max_results = 1\<close>, whatever the clock and the search page.
\<close>

theorem shopee_api_ignores_max_results:
  "\<exists>out. parse_shopee clk to_float
     (Body (JObj [(''items'', JArr
        [JObj [(''item_basic'', JObj [(''name'', JStr ''A''), (''price'', JInt 100000000)])],
         JObj [(''item_basic'', JObj [(''name'', JStr ''B''), (''price'', JInt 200000000)])]])]))
     html 1 = Inr out
    \<and> map name out = [JStr ''A'', JStr ''B''] \<and> length out = 2"
  by (simp add: parse_shopee_def shopee_item_def bnd_def)

text \<open>\<^verbatim>\<open>parse_jd_central\<close> tests the cap after it has appended: a cap of 0 gives one record.\<close>

lemma jd_zero_cap_returns_one:
  "map name (parse_jd_central clk to_float
     (Some [Some (JObj [(''@type'', JStr ''Product''), (''name'', JStr ''A'')]),
            Some (JObj [(''@type'', JStr ''Product''), (''name'', JStr ''B'')])]) 0) = [JStr ''A'']"
  by (simp add: parse_jd_central_def jd_product_def bnd_def)

text \<open>
  C5. In \<^verbatim>\<open>parse_lazada\<close> an item that cannot be read ends the loop: of three items
  with a malformed second one only the first is returned. In the HTML path of
  \<^verbatim>\<open>parse_shopee\<close> a price text that \<^verbatim>\<open>float\<close> refuses raises out of the function
  and no record is returned.
\<close>

theorem item_failure_ends_the_batch:
  "map name (parse_lazada clk
     (ScriptJson (JObj [(''props'', JObj [(''pageProps'', JObj [(''initialState'', JObj
        [(''products'', JObj [(''items'', JArr
           [JObj [(''name'', JStr ''A''), (''price'', JObj [(''value'', JInt 100)])],
            JObj [(''name'', JStr ''B''), (''price'', JStr ''call'')],
            JObj [(''name'', JStr ''C''), (''price'', JObj [(''value'', JInt 300)])]])])])])])]))
     10) = [JStr ''A'']
   \<and> parse_shopee clk (\<lambda>s. if s = ''1000'' then Some 1000 else None) NoBody
     (Some [\<lparr>name_text = Some ''A'', price_text = Some (baht @ ''1,000'')\<rparr>,
            \<lparr>name_text = Some ''B'', price_text = Some ''sold out''\<rparr>,
            \<lparr>name_text = Some ''C'', price_text = Some (baht @ ''1,000'')\<rparr>]) 10
     = Inl ValueError"
  by (simp add: parse_lazada_def lazada_products_data_def lazada_item_def
      parse_shopee_def shopee_card_product_def bnd_def slice_to_def baht_def)

text \<open>\<^verbatim>\<open>parse_jd_central\<close> skips the block that cannot be read and keeps the others.\<close>

lemma jd_skips_failing_block:
  "map name (parse_jd_central clk (\<lambda>s. if s = ''1000'' then Some 1000 else None)
     (Some [Some (JObj [(''@type'', JStr ''Product''), (''name'', JStr ''A''), (''offers'', JObj [(''price'', JStr ''1000'')])]),
            Some (JObj [(''@type'', JStr ''Product''), (''name'', JStr ''B''), (''offers'', JObj [(''price'', JStr ''call'')])]),
            Some (JObj [(''@type'', JStr ''Product''), (''name'', JStr ''C''), (''offers'', JObj [(''price'', JStr ''1000'')])])]) 10)
    = [JStr ''A'', JStr ''C'']"
  by (simp add: parse_jd_central_def jd_product_def bnd_def)


















section \<open>The round trip through the store\<close>

lemma hex_val_digit_char: "k < 16 \<Longrightarrow> hex_val (digit_char k) = Some k"
proof -
  assume "k < 16"
  then consider "k = 0" | "k = 1" | "k = 2" | "k = 3" | "k = 4" | "k = 5" | "k = 6" | "k = 7"
    | "k = 8" | "k = 9" | "k = 10" | "k = 11" | "k = 12" | "k = 13" | "k = 14" | "k = 15"
    by atomize_elim arith
  then show ?thesis
    by cases (simp_all add: hex_val_def digit_char_def)
qed

lemma hex4_control:
  assumes "n < 256"
  shows "hex4 [CHR ''0'', CHR ''0'', digit_char (n div 16), digit_char (n mod 16)] = Some n"
proof -
  have a: "hex_val (digit_char (n div 16)) = Some (n div 16)"
    using assms by (intro hex_val_digit_char) simp
  have b: "hex_val (digit_char (n mod 16)) = Some (n mod 16)"
    by (intro hex_val_digit_char) simp
  have z: "hex_val CHR ''0'' = Some 0" by (simp add: hex_val_def)
  show ?thesis by (simp add: hex4_def a b z)
qed

lemma scanstring_escape_char:
  assumes "scanstring rest = Some (t, r)"
  shows "scanstring (escape_char c @ rest) = Some (c # t, r)"
proof -
  consider (quote) "c = CHR 0x22" | (bs) "c = CHR 0x5C" | (n) "c = CHR 0x0A" | (r) "c = CHR 0x0D"
    | (t) "c = CHR 0x09" | (b) "c = CHR 0x08" | (f) "c = CHR 0x0C"
    | (ctl) "c \<noteq> CHR 0x22" "c \<noteq> CHR 0x5C" "c \<noteq> CHR 0x0A" "c \<noteq> CHR 0x0D" "c \<noteq> CHR 0x09"
        "c \<noteq> CHR 0x08" "c \<noteq> CHR 0x0C" "(of_char c :: nat) < 32"
    | (plain) "c \<noteq> CHR 0x22" "c \<noteq> CHR 0x5C" "\<not> (of_char c :: nat) < 32"
    by (cases "(of_char c :: nat) < 32") auto
  then show ?thesis
  proof cases
    case ctl
    have u: "utf8 (of_char c) = Some [c]"
      using ctl(8) by (simp add: utf8_def)
    have h: "hex4 [CHR ''0'', CHR ''0'', digit_char (of_char c div 16), digit_char (of_char c mod 16)]
               = Some (of_char c)"
      using ctl(8) by (intro hex4_control) simp
    have e: "escape_char c = [CHR 0x5C, CHR ''u'', CHR ''0'', CHR ''0'',
              digit_char (of_char c div 16), digit_char (of_char c mod 16)]"
      using ctl by (simp add: escape_char_def)
    show ?thesis
      unfolding e using assms u h by simp
  next
    case plain
    then have e: "escape_char c = [c]"
      by (auto simp: escape_char_def)
    show ?thesis unfolding e using assms plain by simp
  qed (simp_all add: escape_char_def unescape_def assms)
qed

lemma scanstring_escaped:
  "scanstring (concat (map escape_char s) @ CHR 0x22 # rest) = Some (s, rest)"
  by (induction s) (simp_all add: scanstring_escape_char)

lemma scanstring_encoded:
  "scanstring (tl (encode_basestring s) @ rest) = Some (s, rest)"
  using scanstring_escaped [of s rest] by (simp add: encode_basestring_def)

lemma skip_ws_simps [simp]:
  "skip_ws [] = []"
  "skip_ws (CHR '' '' # s) = skip_ws s"
  "skip_ws (CHR 0x22 # s) = CHR 0x22 # s"
  "skip_ws (CHR '':'' # s) = CHR '':'' # s"
  "skip_ws (CHR '','' # s) = CHR '','' # s"
  "skip_ws (CHR ''{'' # s) = CHR ''{'' # s"
  "skip_ws (CHR ''}'' # s) = CHR ''}'' # s"
  by (simp_all add: skip_ws_def is_ws_def)

lemma members_pair:
  assumes "scanstring (tl (encode_basestring v) @ rest) = Some (v, rest)"
  shows "members (dumps_pair (k, v) @ rest) =
     (case skip_ws rest of
        [] \<Rightarrow> None
      | d # r5 \<Rightarrow>
          if d = CHR '','' then
            (case members (skip_ws r5) of
               None \<Rightarrow> None
             | Some kvs \<Rightarrow> Some ((k, v) # kvs))
          else if d = CHR ''}'' then
            (if skip_ws r5 = [] then Some [(k, v)] else None)
          else None)"
proof -
  have k: "scanstring (concat (map escape_char k) @ CHR 0x22 # '': '' @ encode_basestring v @ rest)
             = Some (k, '': '' @ encode_basestring v @ rest)"
    by (rule scanstring_escaped)
  have v: "scanstring (concat (map escape_char v) @ CHR 0x22 # rest) = Some (v, rest)"
    by (rule scanstring_escaped)
  have shape: "dumps_pair (k, v) @ rest =
      CHR 0x22 # concat (map escape_char k) @ CHR 0x22 # '': '' @ encode_basestring v @ rest"
    by (simp add: dumps_pair_def encode_basestring_def)
  show ?thesis
    unfolding shape
    by (subst members.simps) (simp add: scanstring_escaped encode_basestring_def)
qed

lemma members_joined:
  "kvs \<noteq> [] \<Longrightarrow> members (join '', '' (map dumps_pair kvs) @ ''}'') = Some kvs"
proof (induction kvs)
  case Nil
  then show ?case by simp
next
  case (Cons kv kvs)
  obtain k v where kv: "kv = (k, v)" by (cases kv)
  show ?case
  proof (cases kvs)
    case Nil
    show ?thesis
      unfolding Nil kv using members_pair [of v "''}''" k]
      by (simp add: scanstring_encoded)
  next
    case (Cons kv' kvs')
    have j: "join '', '' (map dumps_pair (kv # kvs)) @ ''}'' =
               dumps_pair (k, v) @ '', '' @ (join '', '' (map dumps_pair kvs) @ ''}'')"
      unfolding Cons kv by simp
    have q: "\<exists>x. join '', '' (map dumps_pair kvs) @ ''}'' = CHR 0x22 # x"
      unfolding Cons by (cases kvs') (simp_all add: dumps_pair_def encode_basestring_def)
    then obtain x where x: "join '', '' (map dumps_pair kvs) @ ''}'' = CHR 0x22 # x" by blast
    have ih: "members (CHR 0x22 # x) = Some kvs"
      using Cons.IH Cons x by simp
    show ?thesis
      unfolding j
      using members_pair [of v "'', '' @ (join '', '' (map dumps_pair kvs) @ ''}'')" k]
      by (simp add: scanstring_encoded x ih kv)
  qed
qed

lemma update_fresh: "k \<notin> fst ` set al \<Longrightarrow> AList.update k v al = al @ [(k, v)]"
  by (induction al) auto

lemma foldl_update_distinct:
  "distinct (map fst (acc @ kvs)) \<Longrightarrow>
     foldl (\<lambda>d kv. AList.update (fst kv) (snd kv) d) acc kvs = acc @ kvs"
proof (induction kvs arbitrary: acc)
  case Nil
  then show ?case by simp
next
  case (Cons kv kvs)
  have "fst kv \<notin> fst ` set acc" using Cons.prems by auto
  then have "AList.update (fst kv) (snd kv) acc = acc @ [kv]"
    by (simp add: update_fresh)
  then show ?case using Cons.IH [of "acc @ [kv]"] Cons.prems by simp
qed

lemma dict_of_distinct: "distinct (map fst kvs) \<Longrightarrow> dict_of kvs = kvs"
  using foldl_update_distinct [of "[]" kvs] by (simp add: dict_of_def)

lemma dumps_str_dict:
  "json_dumps float_repr (JObj (map (\<lambda>kv. (fst kv, JStr (snd kv))) kvs)) =
     ''{'' @ join '', '' (map dumps_pair kvs) @ ''}''"
proof -
  have "(\<lambda>x. encode_basestring (fst x) @ '': '' @ encode_basestring (snd x)) = dumps_pair"
    by (rule ext) (simp add: dumps_pair_def)
  then show ?thesis
    by (simp add: comp_def case_prod_beta)
qed

lemma loads_dumps_str_dict:
  assumes "distinct (map fst kvs)"
  shows "loads_str_dict (json_dumps float_repr (JObj (map (\<lambda>kv. (fst kv, JStr (snd kv))) kvs)))
           = Some kvs"
proof (cases kvs)
  case Nil
  then show ?thesis by (simp add: loads_str_dict_def)
next
  case (Cons kv kvs')
  then have ne: "kvs \<noteq> []" by simp
  obtain x where x: "join '', '' (map dumps_pair kvs) @ ''}'' = CHR 0x22 # x"
    unfolding Cons by (cases kvs') (simp_all add: dumps_pair_def encode_basestring_def)
  have "members (CHR 0x22 # x) = Some kvs"
    using members_joined [OF ne] x by simp
  then show ?thesis
    unfolding dumps_str_dict
    using x by (simp add: loads_str_dict_def dict_of_distinct [OF assms])
qed

lemma digit_val_digit_char: "k < 10 \<Longrightarrow> digit_val (digit_char k) = Some k"
proof -
  assume "k < 10"
  then consider "k = 0" | "k = 1" | "k = 2" | "k = 3" | "k = 4" | "k = 5" | "k = 6" | "k = 7"
    | "k = 8" | "k = 9"
    by atomize_elim arith
  then show ?thesis
    by cases (simp_all add: digit_val_def digit_char_def)
qed

lemma number_of_append:
  "number_of val base acc (xs @ ys) =
     (case number_of val base acc xs of None \<Rightarrow> None | Some a \<Rightarrow> number_of val base a ys)"
  by (induction xs arbitrary: acc) (auto split: option.splits)

lemma number_of_decimal:
  "number_of digit_val 10 acc (decimal n) = Some (acc * 10 ^ length (decimal n) + n)"
proof (induction n arbitrary: acc rule: decimal.induct)
  case (1 n)
  show ?case
  proof (cases "n < 10")
    case True
    then show ?thesis
      by (subst (1 2) decimal.simps) (simp add: digit_val_digit_char)
  next
    case False
    have d: "decimal n = decimal (n div 10) @ [digit_char (n mod 10)]"
      using False by (subst decimal.simps) simp
    have m: "digit_val (digit_char (n mod 10)) = Some (n mod 10)"
      by (intro digit_val_digit_char) simp
    show ?thesis
      unfolding d using "1.IH" [OF False, of acc]
      by (simp add: number_of_append m algebra_simps)
  qed
qed

lemma number_of_zeros:
  "number_of digit_val 10 0 (replicate k CHR ''0'' @ s) = number_of digit_val 10 0 s"
  by (induction k) (simp_all add: digit_val_def)

lemma decimal_value_zero_pad: "decimal_value (zero_pad w n) = Some n"
  by (simp add: decimal_value_def zero_pad_def number_of_zeros number_of_decimal)

lemma length_decimal: "n < 10 ^ w \<Longrightarrow> 0 < w \<Longrightarrow> length (decimal n) \<le> w"
proof (induction n arbitrary: w rule: decimal.induct)
  case (1 n)
  show ?case
  proof (cases "n < 10")
    case True
    then show ?thesis using "1.prems" by (subst decimal.simps) simp
  next
    case False
    obtain v where w: "w = Suc v" using "1.prems"(2) by (cases w) auto
    have "v \<noteq> 0" using False "1.prems"(1) w by (cases v) auto
    moreover have "n div 10 < 10 ^ v" using "1.prems"(1) w by (simp add: less_mult_imp_div_less mult.commute)
    ultimately have "length (decimal (n div 10)) \<le> v"
      using "1.IH" [OF False, of v] by simp
    then show ?thesis
      using False w by (subst decimal.simps) simp
  qed
qed

lemma length_zero_pad: "n < 10 ^ w \<Longrightarrow> 0 < w \<Longrightarrow> length (zero_pad w n) = w"
  using length_decimal [of n w] by (simp add: zero_pad_def)

lemma list2: "length A = 2 \<Longrightarrow> \<exists>a b. A = [a, b]"
  by (cases A; cases "tl A") auto

lemma list4: "length A = 4 \<Longrightarrow> \<exists>a b c d. A = [a, b, c, d]"
  by (auto simp: length_Suc_conv eval_nat_numeral)

lemma list6: "length A = 6 \<Longrightarrow> \<exists>a b c d e f. A = [a, b, c, d, e, f]"
  by (auto simp: length_Suc_conv eval_nat_numeral)

lemma fromisoformat_isoformat:
  assumes "valid_datetime d"
  shows "fromisoformat (isoformat d) = Some d"
proof -
  have ly: "length (zero_pad 4 (year d)) = 4"
    using assms by (intro length_zero_pad) (simp_all add: valid_datetime_def)
  have lmo: "length (zero_pad 2 (month d)) = 2"
    using assms by (intro length_zero_pad) (simp_all add: valid_datetime_def)
  have ld: "length (zero_pad 2 (day d)) = 2"
    using assms by (intro length_zero_pad) (simp_all add: valid_datetime_def)
  have lh: "length (zero_pad 2 (hour d)) = 2"
    using assms by (intro length_zero_pad) (simp_all add: valid_datetime_def)
  have lmi: "length (zero_pad 2 (minute d)) = 2"
    using assms by (intro length_zero_pad) (simp_all add: valid_datetime_def)
  have ls: "length (zero_pad 2 (second d)) = 2"
    using assms by (intro length_zero_pad) (simp_all add: valid_datetime_def)
  have lus: "length (zero_pad 6 (microsecond d)) = 6"
    using assms by (intro length_zero_pad) (simp_all add: valid_datetime_def)
  obtain y1 y2 y3 y4 where y: "zero_pad 4 (year d) = [y1, y2, y3, y4]"
    using list4 [OF ly] by blast
  obtain mo1 mo2 where mo: "zero_pad 2 (month d) = [mo1, mo2]"
    using list2 [OF lmo] by blast
  obtain d1 d2 where dd: "zero_pad 2 (day d) = [d1, d2]"
    using list2 [OF ld] by blast
  obtain h1 h2 where h: "zero_pad 2 (hour d) = [h1, h2]"
    using list2 [OF lh] by blast
  obtain mi1 mi2 where mi: "zero_pad 2 (minute d) = [mi1, mi2]"
    using list2 [OF lmi] by blast
  obtain s1 s2 where se: "zero_pad 2 (second d) = [s1, s2]"
    using list2 [OF ls] by blast
  obtain u1 u2 u3 u4 u5 u6 where us: "zero_pad 6 (microsecond d) = [u1, u2, u3, u4, u5, u6]"
    using list6 [OF lus] by blast
  have vy: "decimal_value [y1, y2, y3, y4] = Some (year d)"
    using decimal_value_zero_pad [of 4 "year d"] y by simp
  have vmo: "decimal_value [mo1, mo2] = Some (month d)"
    using decimal_value_zero_pad [of 2 "month d"] mo by simp
  have vd: "decimal_value [d1, d2] = Some (day d)"
    using decimal_value_zero_pad [of 2 "day d"] dd by simp
  have vh: "decimal_value [h1, h2] = Some (hour d)"
    using decimal_value_zero_pad [of 2 "hour d"] h by simp
  have vmi: "decimal_value [mi1, mi2] = Some (minute d)"
    using decimal_value_zero_pad [of 2 "minute d"] mi by simp
  have vs: "decimal_value [s1, s2] = Some (second d)"
    using decimal_value_zero_pad [of 2 "second d"] se by simp
  have vus: "decimal_value [u1, u2, u3, u4, u5, u6] = Some (microsecond d)"
    using decimal_value_zero_pad [of 6 "microsecond d"] us by simp
  have v0: "decimal_value [] = Some 0"
    by (simp add: decimal_value_def)
  show ?thesis
  proof (cases "microsecond d = 0")
    case True
    have "isoformat d = [y1, y2, y3, y4, CHR ''-'', mo1, mo2, CHR ''-'', d1, d2, CHR ''T'',
                         h1, h2, CHR '':'', mi1, mi2, CHR '':'', s1, s2]"
      using True by (simp add: isoformat_def y mo dd h mi se)
    then show ?thesis
      using True by (simp add: fromisoformat_def vy vmo vd vh vmi vs v0)
  next
    case False
    have "isoformat d = [y1, y2, y3, y4, CHR ''-'', mo1, mo2, CHR ''-'', d1, d2, CHR ''T'',
                         h1, h2, CHR '':'', mi1, mi2, CHR '':'', s1, s2, CHR ''.'',
                         u1, u2, u3, u4, u5, u6]"
      using False by (simp add: isoformat_def y mo dd h mi se us)
    then show ?thesis
      by (simp add: fromisoformat_def vy vmo vd vh vmi vs vus)
  qed
qed

lemma str_specs:
  assumes "list_all (\<lambda>kv. is_str (snd kv)) kvs"
  shows "map (\<lambda>kv. (fst kv, JStr (snd kv))) (map (\<lambda>kv. (fst kv, str_of (snd kv))) kvs) = kvs"
  using assms
proof (induction kvs)
  case Nil
  then show ?case by simp
next
  case (Cons kv kvs)
  obtain k v where kv: "kv = (k, v)" by (cases kv)
  then have "is_str v" using Cons.prems by simp
  then obtain s where "v = JStr s" by (cases v) auto
  then show ?case using Cons kv by simp
qed

lemma read_back_as_tuple:
  assumes "declared_types p"
  shows "read_back (as_tuple float_repr p) = Some p"
proof -
  let ?d = "map (\<lambda>kv. (fst kv, str_of (snd kv))) (specs p)"
  have s: "map (\<lambda>kv. (fst kv, JStr (snd kv))) ?d = specs p"
    using assms by (intro str_specs) (simp add: declared_types_def)
  have "distinct (map fst ?d)"
    using assms by (simp add: declared_types_def comp_def)
  then have "loads_str_dict (json_dumps float_repr (JObj (map (\<lambda>kv. (fst kv, JStr (snd kv))) ?d)))
               = Some ?d"
    by (rule loads_dumps_str_dict)
  then have l: "loads_str_dict (json_dumps float_repr (JObj (specs p))) = Some ?d"
    unfolding s .
  have t: "fromisoformat (isoformat (timestamp p)) = Some (timestamp p)"
    using assms by (intro fromisoformat_isoformat) (simp add: declared_types_def)
  have "read_back (as_tuple float_repr p) =
          Some \<lparr>marketplace = marketplace p, name = name p, price = price p,
                currency = currency p, specs = map (\<lambda>kv. (fst kv, JStr (snd kv))) ?d,
                sales = sales p, rating = rating p, timestamp = timestamp p\<rparr>"
    unfolding read_back_def as_tuple_def
    by (simp add: l t del: json_dumps.simps map_map)
  then show ?thesis
    unfolding s by simp
qed

end
